theory Spec2Isabelle
  imports Main "HOL-Library.Word"
begin

unbundle bit_operations_syntax

section \<open>The emitted IR: the assembly tree built by IRGenerate.cpp\<close>

text \<open>
  \<^verbatim>\<open>IRGenerate.cpp\<close> walks a Solidity contract and builds a tree of
  \<^verbatim>\<open>assembly::\<close> nodes. The declarations of these nodes (AsmData.h) are not part of
  the translated file; the types below carry exactly the members the file reads or writes:
  \<^verbatim>\<open>location\<close>, \<^verbatim>\<open>kind\<close>, \<^verbatim>\<open>value\<close>, \<^verbatim>\<open>type\<close>, \<^verbatim>\<open>functionName.name\<close>,
  \<^verbatim>\<open>arguments\<close>, \<^verbatim>\<open>name\<close>, \<^verbatim>\<open>body\<close>, \<^verbatim>\<open>expression\<close>, \<^verbatim>\<open>cases\<close>,
  \<^verbatim>\<open>statements\<close>. A source location is a pair of offsets and a source name; a
  default-constructed node has the location \<open>(-1, -1, [])\<close>.
\<close>

type_synonym SourceLocation = "int \<times> int \<times> string"

definition defaultLocation :: SourceLocation where
  "defaultLocation = (-1, -1, [])"

datatype LiteralKind = Number | String

datatype assembly_Literal =
  Literal (lit_location: SourceLocation) (lit_kind: LiteralKind)
          (lit_value: string) (lit_type: string)

text \<open>
  \<^verbatim>\<open>assembly::Statement\<close> is a variant. The alternatives that this file never builds
  itself (instructions, labels, assignments, identifiers, ...) can only arrive inside
  inline assembly or from the parser; they are kept opaque as \<open>StOther\<close>.
  A \<^verbatim>\<open>Case\<close> whose \<^verbatim>\<open>value\<close> pointer is null is the default case.
\<close>

datatype assembly_Statement =
    StLiteral assembly_Literal
  | StFunctionCall assembly_FunctionCall
  | StFunctionDefinition assembly_FunctionDefinition
  | StSwitch assembly_Switch
  | StBlock assembly_Block
  | StOther string
and assembly_FunctionCall =
    FunctionCall (fc_location: SourceLocation) (functionName: string)
                 (arguments: "assembly_Statement list")
and assembly_FunctionDefinition =
    AsmFunctionDefinition (fd_location: SourceLocation) (fd_name: string)
                          (fd_body: assembly_Block)
and assembly_Switch =
    Switch (sw_location: SourceLocation) (expression: assembly_Statement)
           (cases: "assembly_Case list")
and assembly_Case =
    Case (case_location: SourceLocation) (case_value: "assembly_Literal option")
         (case_body: assembly_Block)
and assembly_Block =
    AsmBlock (block_location: SourceLocation) (statements: "assembly_Statement list")


section \<open>The input: the elaborated contract AST\<close>

text \<open>
  The AST classes (AST.h) are not part of the translated file either. A node is a record
  of the accessors that \<^verbatim>\<open>IRGenerate.cpp\<close> calls on it. Statements other than blocks,
  \<^verbatim>\<open>throw\<close> and inline assembly have no \<^verbatim>\<open>visit\<close> override in this file: the
  visitor's default descends into their children, which is all \<open>OtherStatement\<close> keeps.
\<close>

datatype ContractKind = Interface | Contract | Library

record VariableDeclaration =
  var_name :: string
  canonicalTypeName :: string

datatype Statement =
    Block SourceLocation "Statement list"
  | Throw SourceLocation
  | InlineAssembly SourceLocation assembly_Block
  | OtherStatement "Statement list"

record FunctionDefinition =
  name :: string
  location :: SourceLocation
  isImplemented :: bool
  modifiers :: "string list"
  parameters :: "VariableDeclaration list"
  returnParameters :: "VariableDeclaration list"
  isPartOfExternalInterface :: bool
  isPayable :: bool
  body :: Statement

record ContractDefinition =
  contractKind :: ContractKind
  baseContracts :: "string list"
  definedStructs :: "string list"
  definedEnums :: "string list"
  events :: "string list"
  functionModifiers :: "string list"
  fullyQualifiedName :: string
  contract_location :: SourceLocation
  definedFunctions :: "FunctionDefinition list"

fun commaJoin :: "string list \<Rightarrow> string" where
  "commaJoin [] = []"
| "commaJoin [t] = t"
| "commaJoin (t # ts) = t @ '','' @ commaJoin ts"

text \<open>
  Modelled from the spec: \<^verbatim>\<open>FunctionDefinition::externalSignature\<close> (AST.cpp) is
  missing. The canonical signature is the function name, an opening parenthesis, the
  comma-joined canonical parameter type names and a closing parenthesis, with no
  whitespace.
\<close>

definition externalSignature :: "FunctionDefinition \<Rightarrow> string" where
  "externalSignature f =
     name f @ ''('' @ commaJoin (map canonicalTypeName (parameters f)) @ '')''"

text \<open>
  Modelled from the spec: \<^verbatim>\<open>ContractDefinition::fallbackFunction\<close> (AST.cpp) is
  missing. The fallback is the function with the empty source name; that there is at most
  one is the elaborator's business, so the first one in declaration order is taken.
\<close>

definition fallbackFunction :: "ContractDefinition \<Rightarrow> FunctionDefinition option" where
  "fallbackFunction c = find (\<lambda>f. name f = []) (definedFunctions c)"


section \<open>Hashing and hex helpers (libdevcore)\<close>

type_synonym bytes = "8 word list"

datatype HexPrefix = DontAdd | Add

text \<open>
  What \<^verbatim>\<open>IRGenerate.cpp\<close> calls but does not define is a parameter of the model:
  \<^item> \<open>keccak256\<close>, the digest of a string (\<^verbatim>\<open>dev::keccak256\<close>, 32 bytes);
  \<^item> \<open>toHex_Arith\<close>, the overload of \<^verbatim>\<open>toHex\<close> that prints a number, with or
    without the \<^verbatim>\<open>0x\<close> prefix;
  \<^item> \<open>parse\<close>, the assembly parser in Julia mode: the parsed block (or a null
    pointer) and the list of reported errors.
\<close>

record Externals =
  keccak256 :: "string \<Rightarrow> bytes"
  toHex_Arith :: "32 word \<Rightarrow> HexPrefix \<Rightarrow> string"
  parse :: "string \<Rightarrow> assembly_Block option \<times> string list"

definition hexDigit :: "nat \<Rightarrow> char" where
  "hexDigit n = ''0123456789abcdef'' ! (n mod 16)"

text \<open>
  Modelled from the spec: \<^verbatim>\<open>toHex\<close> on a byte sequence (CommonData.h) is missing. It is
  the spec's \<open>hex\<close> of a digest: two lower-case hex digits per byte, first byte first.
\<close>

definition toHex :: "bytes \<Rightarrow> string" where
  "toHex bs = concat (map (\<lambda>b. [hexDigit (unat b div 16), hexDigit (unat b mod 16)]) bs)"

text \<open>
  Modelled from the spec: \<^verbatim>\<open>FixedHash<4>\<close> (FixedHash.h) is missing. The selector is
  the low 4 bytes of the digest, that is its four lowest-indexed bytes, the ones a call
  carries in front of its arguments; a shorter input is padded with zero bytes.
  \<open>FixedHash4_Arith\<close> reads these four bytes as one big-endian 32-bit number.
\<close>

definition FixedHash4 :: "bytes \<Rightarrow> bytes" where
  "FixedHash4 h = take 4 (h @ replicate 4 0)"

definition FixedHash4_Arith :: "bytes \<Rightarrow> 32 word" where
  "FixedHash4_Arith bs = foldl (\<lambda>acc b. push_bit 8 acc OR ucast b) 0 bs"


section \<open>The generator\<close>

subsection \<open>State and failures\<close>

text \<open>
  \<^verbatim>\<open>m_contracts\<close> maps a fully-qualified name to a shared pointer to a block, and
  \<^verbatim>\<open>m_body\<close> is a second pointer to the block of the contract being generated. Both
  point into \<open>heap\<close>: an address is an index, \<^verbatim>\<open>make_shared\<close> appends a cell, and
  \<open>None\<close> is the null pointer (an absent map entry reads as null in C++ too).
  \<^verbatim>\<open>m_currentFunction\<close> is a plain \<^verbatim>\<open>assembly::FunctionDefinition\<close> member.

  \<^verbatim>\<open>solUnimplementedAssert\<close> throws \<^verbatim>\<open>UnimplementedFeatureError\<close> and
  \<^verbatim>\<open>solAssert\<close> throws \<^verbatim>\<open>InternalCompilerError\<close>, each with its message. Nothing in
  the file catches them, so a failure leaves the generator as it was when the exception
  was thrown: \<open>Inl\<close> carries the error together with that state. Dereferencing a null
  \<^verbatim>\<open>m_body\<close> is undefined behaviour in C++ and is the error \<open>NullPointerDereference\<close>
  here.
\<close>

datatype Error =
    UnimplementedFeatureError string
  | InternalCompilerError string
  | NullPointerDereference

record IRGenerate =
  heap :: "assembly_Block list"
  m_contracts :: "string \<rightharpoonup> nat"
  m_body :: "nat option"
  m_currentFunction :: assembly_FunctionDefinition

type_synonym result = "(Error \<times> IRGenerate) + IRGenerate"

definition andThen :: "result \<Rightarrow> (IRGenerate \<Rightarrow> result) \<Rightarrow> result" where
  "andThen r k = (case r of Inl e \<Rightarrow> Inl e | Inr st \<Rightarrow> k st)"

definition solUnimplementedAssert :: "bool \<Rightarrow> string \<Rightarrow> IRGenerate \<Rightarrow> result" where
  "solUnimplementedAssert cond msg st =
     (if cond then Inr st else Inl (UnimplementedFeatureError msg, st))"

definition solAssert :: "bool \<Rightarrow> string \<Rightarrow> IRGenerate \<Rightarrow> result" where
  "solAssert cond msg st = (if cond then Inr st else Inl (InternalCompilerError msg, st))"

text \<open>\<^verbatim>\<open>m_body->statements.emplace_back(s)\<close>\<close>

definition body_emplace_back :: "assembly_Statement \<Rightarrow> IRGenerate \<Rightarrow> result" where
  "body_emplace_back s st =
     (case m_body st of
        None \<Rightarrow> Inl (NullPointerDereference, st)
      | Some a \<Rightarrow>
          if a < length (heap st)
          then Inr (st\<lparr>heap := (heap st)
                 [a := AsmBlock (block_location (heap st ! a)) (statements (heap st ! a) @ [s])]\<rparr>)
          else Inl (NullPointerDereference, st))"

text \<open>\<^verbatim>\<open>m_currentFunction.body.statements.emplace_back(s)\<close>\<close>

definition currentFunction_emplace_back :: "assembly_Statement \<Rightarrow> IRGenerate \<Rightarrow> IRGenerate" where
  "currentFunction_emplace_back s st =
     st\<lparr>m_currentFunction :=
          AsmFunctionDefinition (fd_location (m_currentFunction st)) (fd_name (m_currentFunction st))
            (AsmBlock (block_location (fd_body (m_currentFunction st)))
                      (statements (fd_body (m_currentFunction st)) @ [s]))\<rparr>"

subsection \<open>Node builders\<close>

definition createFunctionCall :: "string \<Rightarrow> assembly_FunctionCall" where
  "createFunctionCall f = FunctionCall defaultLocation f []"

definition wrapInBlock :: "assembly_Statement \<Rightarrow> assembly_Block" where
  "wrapInBlock s = AsmBlock defaultLocation [s]"

definition createRevert :: assembly_FunctionCall where
  "createRevert =
     (let zero = Literal defaultLocation Number ''0'' ''u256''
      in FunctionCall defaultLocation ''revert'' [StLiteral zero, StLiteral zero])"

text \<open>
  Line 68 of the file writes \<^verbatim>\<open>function.externalSignature()\<close> although the parameter is
  called \<^verbatim>\<open>_function\<close>; it is read as the signature of that parameter.
\<close>

definition uniqueFunctionName :: "Externals \<Rightarrow> FunctionDefinition \<Rightarrow> string" where
  "uniqueFunctionName ext f =
     (if name f = [] then ''fallback''
      else ''_'' @ name f @ ''_'' @ toHex (keccak256 ext (externalSignature f)))"

subsection \<open>Statements of a function body\<close>

definition visit_Throw :: "SourceLocation \<Rightarrow> IRGenerate \<Rightarrow> IRGenerate" where
  "visit_Throw loc st =
     (let funCall = createRevert;
          funCall = FunctionCall loc (functionName funCall) (arguments funCall)
      in currentFunction_emplace_back (StFunctionCall funCall) st)"

definition visit_InlineAssembly :: "assembly_Block \<Rightarrow> IRGenerate \<Rightarrow> IRGenerate" where
  "visit_InlineAssembly operations st = currentFunction_emplace_back (StBlock operations) st"

text \<open>
  \<open>accept_Statement\<close> is the visitor's dispatch on a statement node: the three
  \<^verbatim>\<open>visit\<close> overrides of the file (each returns false, so nothing else is visited
  below the node), and the default for every other node.
\<close>

fun accept_Statement :: "Statement \<Rightarrow> IRGenerate \<Rightarrow> IRGenerate" where
  "accept_Statement (Block loc ss) st = fold accept_Statement ss st"
| "accept_Statement (Throw loc) st = visit_Throw loc st"
| "accept_Statement (InlineAssembly loc operations) st = visit_InlineAssembly operations st"
| "accept_Statement (OtherStatement ss) st = fold accept_Statement ss st"

subsection \<open>Functions\<close>

definition visit_FunctionDefinition :: "Externals \<Rightarrow> FunctionDefinition \<Rightarrow> IRGenerate \<Rightarrow> result" where
  "visit_FunctionDefinition ext f st =
     andThen (solUnimplementedAssert (isImplemented f)
                ''Unimplemented functions not supported yet.'' st) (\<lambda>st.
     andThen (solUnimplementedAssert (modifiers f = [])
                ''Modifiers not supported yet.'' st) (\<lambda>st.
     andThen (solUnimplementedAssert (parameters f = [])
                ''Parameters not supported yet.'' st) (\<lambda>st.
     andThen (solUnimplementedAssert (returnParameters f = [])
                ''Return parameters not supported yet.'' st) (\<lambda>st.
     let funDef = AsmFunctionDefinition (location f) (uniqueFunctionName ext f)
                    (AsmBlock defaultLocation []);
         st = st\<lparr>m_currentFunction := funDef\<rparr>
     in Inr (accept_Statement (body f) st)))))"

definition endVisit_FunctionDefinition :: "IRGenerate \<Rightarrow> result" where
  "endVisit_FunctionDefinition st =
     body_emplace_back (StFunctionDefinition (m_currentFunction st)) st"

text \<open>
  Modelled from the spec: \<^verbatim>\<open>FunctionDefinition::accept\<close> and \<^verbatim>\<open>ASTNode::listAccept\<close>
  (the visitor protocol) are missing. Visiting a function opens the context and visits the
  body, and on exit the finished definition is committed: \<^verbatim>\<open>visit\<close>, no descent into
  the children since it returns false, then \<^verbatim>\<open>endVisit\<close>. The functions of a contract
  are visited in declaration order.
\<close>

definition accept_FunctionDefinition :: "Externals \<Rightarrow> FunctionDefinition \<Rightarrow> IRGenerate \<Rightarrow> result" where
  "accept_FunctionDefinition ext f st =
     andThen (visit_FunctionDefinition ext f st) endVisit_FunctionDefinition"

fun listAccept :: "Externals \<Rightarrow> FunctionDefinition list \<Rightarrow> IRGenerate \<Rightarrow> result" where
  "listAccept ext [] st = Inr st"
| "listAccept ext (f # fs) st = andThen (accept_FunctionDefinition ext f st) (listAccept ext fs)"

subsection \<open>The dispatcher\<close>

definition line :: "nat \<Rightarrow> string \<Rightarrow> string" where
  "line n s = replicate n (CHR 0x09) @ s @ [CHR 0x0A]"

text \<open>The raw string literal of lines 75 to 92, tabs and line ends included.\<close>

definition dispatcherBoilerplate :: string where
  "dispatcherBoilerplate =
     line 0 [] @
     line 1 ''{'' @
     line 2 ''// Revert if value was received.'' @
     line 2 ''function ensureNoValueTransfer()'' @
     line 2 ''{'' @
     line 3 ''switch callvalue()'' @
     line 3 ''case 0:u256 {}'' @
     line 3 ''default { revert(0:u256, 0:u256) }'' @
     line 2 ''}'' @
     line 0 [] @
     line 2 ''// Extract 32 bit method identifier'' @
     line 2 ''function extractCallSignature() -> sig:u256'' @
     line 2 ''{'' @
     line 3 ''// FIXME: replace with constant'' @
     line 3 ''sig := div(calldataload(0:u256), exp(2:u256, 224:u256))'' @
     line 2 ''}'' @
     line 1 ''}'' @
     [CHR 0x09]"

fun emplace_all :: "assembly_Statement list \<Rightarrow> IRGenerate \<Rightarrow> result" where
  "emplace_all [] st = Inr st"
| "emplace_all (s # ss) st = andThen (body_emplace_back s st) (emplace_all ss)"

definition appendFunction :: "Externals \<Rightarrow> string \<Rightarrow> IRGenerate \<Rightarrow> result" where
  "appendFunction ext function st =
     (case parse ext function of (result, errors) \<Rightarrow>
        andThen (solAssert (result \<noteq> None) [] st) (\<lambda>st.
        andThen (solAssert (errors = []) [] st) (\<lambda>st.
        emplace_all (statements (the result)) st)))"

definition cases_emplace_back :: "assembly_Case \<Rightarrow> assembly_Switch \<Rightarrow> assembly_Switch" where
  "cases_emplace_back c sw = Switch (sw_location sw) (expression sw) (cases sw @ [c])"

definition block_emplace_back :: "assembly_Statement \<Rightarrow> assembly_Block \<Rightarrow> assembly_Block" where
  "block_emplace_back s b = AsmBlock (block_location b) (statements b @ [s])"

text \<open>The loop of lines 97 to 117, threading the switch under construction.\<close>

fun dispatchCases :: "Externals \<Rightarrow> FunctionDefinition list \<Rightarrow> assembly_Switch \<Rightarrow> assembly_Switch" where
  "dispatchCases ext [] sw = sw"
| "dispatchCases ext (function # fs) sw =
     (if \<not> isPartOfExternalInterface function then dispatchCases ext fs sw
      else
        let literal = Literal defaultLocation Number
              (toHex_Arith ext
                 (FixedHash4_Arith (FixedHash4 (keccak256 ext (externalSignature function)))) Add)
              ''u256'';
            body = AsmBlock defaultLocation [];
            body = (if \<not> isPayable function
                    then block_emplace_back
                           (StFunctionCall (createFunctionCall ''ensureNoValueTransfer'')) body
                    else body);
            body = block_emplace_back
                     (StFunctionCall (createFunctionCall (uniqueFunctionName ext function))) body;
            c = Case defaultLocation (Some literal) body
        in dispatchCases ext fs (cases_emplace_back c sw))"

definition defaultCase :: "ContractDefinition \<Rightarrow> assembly_Case" where
  "defaultCase c =
     (case fallbackFunction c of
        Some fallback \<Rightarrow>
          let body = AsmBlock defaultLocation [];
              body = (if \<not> isPayable fallback
                      then block_emplace_back
                             (StFunctionCall (createFunctionCall ''ensureNoValueTransfer'')) body
                      else body);
              body = block_emplace_back (StFunctionCall (createFunctionCall ''fallback'')) body
          in Case defaultLocation None body
      | None \<Rightarrow> Case defaultLocation None (wrapInBlock (StFunctionCall createRevert)))"

text \<open>The switch of lines 94 to 130: selector expression, one case per external function, default case.\<close>

definition dispatcherSwitch :: "Externals \<Rightarrow> ContractDefinition \<Rightarrow> assembly_Switch" where
  "dispatcherSwitch ext c =
     (let switch = Switch defaultLocation
                     (StFunctionCall (createFunctionCall ''extractCallSignature'')) [];
          switch = dispatchCases ext (definedFunctions c) switch
      in cases_emplace_back (defaultCase c) switch)"

definition buildDispatcher :: "Externals \<Rightarrow> ContractDefinition \<Rightarrow> IRGenerate \<Rightarrow> result" where
  "buildDispatcher ext c st =
     andThen (appendFunction ext dispatcherBoilerplate st)
       (body_emplace_back (StSwitch (dispatcherSwitch ext c)))"

subsection \<open>Contracts\<close>

definition visit_ContractDefinition :: "Externals \<Rightarrow> ContractDefinition \<Rightarrow> IRGenerate \<Rightarrow> result" where
  "visit_ContractDefinition ext c st =
     andThen (solUnimplementedAssert (contractKind c = Contract)
                ''Non-contracts (libraries, interfaces) are not supported yet.'' st) (\<lambda>st.
     andThen (solUnimplementedAssert (baseContracts c = [])
                ''Inheritance not supported yet.'' st) (\<lambda>st.
     andThen (solUnimplementedAssert (definedStructs c = [])
                ''User-defined types not supported yet.'' st) (\<lambda>st.
     andThen (solUnimplementedAssert (definedEnums c = [])
                ''User-defined types not supported yet.'' st) (\<lambda>st.
     andThen (solUnimplementedAssert (events c = [])
                ''Events not supported yet.'' st) (\<lambda>st.
     andThen (solUnimplementedAssert (functionModifiers c = [])
                ''Modifiers not supported yet.'' st) (\<lambda>st.
     andThen (solAssert (m_contracts st (fullyQualifiedName c) = None) [] st) (\<lambda>st.
     let a = length (heap st);
         st = st\<lparr>heap := heap st @ [AsmBlock (contract_location c) []],
                 m_body := Some a,
                 m_contracts := (m_contracts st)(fullyQualifiedName c \<mapsto> a)\<rparr>
     in andThen (listAccept ext (definedFunctions c) st) (buildDispatcher ext c))))))))"



section \<open>Notions used in the statements\<close>

text \<open>The block registered for a name: \<^verbatim>\<open>*m_contracts[n]\<close>, if that pointer is not null.\<close>

definition contractBlock :: "IRGenerate \<Rightarrow> string \<Rightarrow> assembly_Block option" where
  "contractBlock st n =
     (case m_contracts st n of
        None \<Rightarrow> None
      | Some a \<Rightarrow> if a < length (heap st) then Some (heap st ! a) else None)"

text \<open>The externally callable functions of a contract, in declaration order.\<close>

definition externalFunctions :: "ContractDefinition \<Rightarrow> FunctionDefinition list" where
  "externalFunctions c = filter isPartOfExternalInterface (definedFunctions c)"

text \<open>The statements that visiting a source statement appends to the current function.\<close>

fun emitted :: "Statement \<Rightarrow> assembly_Statement list" where
  "emitted (Block loc ss) = concat (map emitted ss)"
| "emitted (Throw loc) =
     [StFunctionCall (FunctionCall loc ''revert''
        [StLiteral (Literal defaultLocation Number ''0'' ''u256''),
         StLiteral (Literal defaultLocation Number ''0'' ''u256'')])]"
| "emitted (InlineAssembly loc operations) = [StBlock operations]"
| "emitted (OtherStatement ss) = concat (map emitted ss)"

definition functionIR :: "Externals \<Rightarrow> FunctionDefinition \<Rightarrow> assembly_FunctionDefinition" where
  "functionIR ext f =
     AsmFunctionDefinition (location f) (uniqueFunctionName ext f)
       (AsmBlock defaultLocation (emitted (body f)))"

text \<open>
  The messages of the restrictions a node violates, in the order in which the visit
  checks them.
\<close>

definition contractViolations :: "ContractDefinition \<Rightarrow> string list" where
  "contractViolations c =
     (if contractKind c \<noteq> Contract
      then [''Non-contracts (libraries, interfaces) are not supported yet.''] else []) @
     (if baseContracts c \<noteq> [] then [''Inheritance not supported yet.''] else []) @
     (if definedStructs c \<noteq> [] then [''User-defined types not supported yet.''] else []) @
     (if definedEnums c \<noteq> [] then [''User-defined types not supported yet.''] else []) @
     (if events c \<noteq> [] then [''Events not supported yet.''] else []) @
     (if functionModifiers c \<noteq> [] then [''Modifiers not supported yet.''] else [])"

definition functionViolations :: "FunctionDefinition \<Rightarrow> string list" where
  "functionViolations f =
     (if \<not> isImplemented f then [''Unimplemented functions not supported yet.''] else []) @
     (if modifiers f \<noteq> [] then [''Modifiers not supported yet.''] else []) @
     (if parameters f \<noteq> [] then [''Parameters not supported yet.''] else []) @
     (if returnParameters f \<noteq> [] then [''Return parameters not supported yet.''] else [])"

text \<open>What a run yields for the contract named \<open>n\<close>: the error, or the registered block.\<close>

definition outcome :: "string \<Rightarrow> result \<Rightarrow> Error + assembly_Block option" where
  "outcome n r = (case r of Inl (e, st) \<Rightarrow> Inl e | Inr st \<Rightarrow> Inr (contractBlock st n))"

text \<open>Appending statements to the block at an address.\<close>

definition appendToBody :: "nat \<Rightarrow> assembly_Statement list \<Rightarrow> IRGenerate \<Rightarrow> IRGenerate" where
  "appendToBody a ss st =
     st\<lparr>heap := (heap st)
          [a := AsmBlock (block_location (heap st ! a)) (statements (heap st ! a) @ ss)]\<rparr>"

text \<open>A function context with more statements at the end of its body.\<close>

definition extendContext ::
  "assembly_Statement list \<Rightarrow> assembly_FunctionDefinition \<Rightarrow> assembly_FunctionDefinition" where
  "extendContext ss cf =
     AsmFunctionDefinition (fd_location cf) (fd_name cf)
       (AsmBlock (block_location (fd_body cf)) (statements (fd_body cf) @ ss))"

text \<open>The generator right after lines 49 to 51: a fresh empty block, registered and current.\<close>

definition registered :: "ContractDefinition \<Rightarrow> IRGenerate \<Rightarrow> IRGenerate" where
  "registered c st =
     st\<lparr>heap := heap st @ [AsmBlock (contract_location c) []],
        m_body := Some (length (heap st)),
        m_contracts := (m_contracts st)(fullyQualifiedName c \<mapsto> length (heap st))\<rparr>"

text \<open>The call statement with no arguments and no location, and the case of one function.\<close>

definition callTo :: "string \<Rightarrow> assembly_Statement" where
  "callTo f = StFunctionCall (FunctionCall defaultLocation f [])"

definition caseFor :: "Externals \<Rightarrow> FunctionDefinition \<Rightarrow> assembly_Case" where
  "caseFor ext f =
     Case defaultLocation
       (Some (Literal defaultLocation Number
          (toHex_Arith ext (FixedHash4_Arith (FixedHash4 (keccak256 ext (externalSignature f)))) Add)
          ''u256''))
       (AsmBlock defaultLocation
          ((if isPayable f then [] else [callTo ''ensureNoValueTransfer'']) @
           [callTo (uniqueFunctionName ext f)]))"

text \<open>
  The internal name in the spec's words: an underscore, the source name, an underscore and
  the hex digest of the canonical signature; \<open>fallback\<close> for the function without a name.
\<close>

definition spec_internalName :: "Externals \<Rightarrow> FunctionDefinition \<Rightarrow> string" where
  "spec_internalName ext f =
     (if name f = [] then ''fallback''
      else ''_'' @ name f @ ''_'' @ toHex (keccak256 ext (externalSignature f)))"

text \<open>The context that visiting a list of functions leaves behind.\<close>

definition contextAfter ::
  "Externals \<Rightarrow> FunctionDefinition list \<Rightarrow> assembly_FunctionDefinition \<Rightarrow> assembly_FunctionDefinition" where
  "contextAfter ext fs cf = (if fs = [] then cf else functionIR ext (last fs))"

text \<open>The context of a generator that has not visited anything: a default-constructed member.\<close>

definition idleContext :: assembly_FunctionDefinition where
  "idleContext = AsmFunctionDefinition defaultLocation [] (AsmBlock defaultLocation [])"


section \<open>Example inputs\<close>

text \<open>
  A stand-in for the externals, enough to run the generator on the examples: the Keccak-256
  digests of the three signatures that occur, eight hex digits for a selector, and the parse
  tree of the boilerplate snippet.
\<close>

definition example_keccak256 :: "string \<Rightarrow> bytes" where
  "example_keccak256 s =
     (if s = ''foo()'' then
        [0xc2, 0x98, 0x55, 0x78, 0xb8, 0xf3, 0xb7, 0x5f, 0x7d, 0xc6, 0x6a, 0x76, 0x7b, 0xe2, 0xa4, 0xef,
         0x7d, 0x7c, 0x22, 0x24, 0x89, 0x6a, 0x1c, 0x86, 0xe9, 0x2c, 0xcf, 0x30, 0xba, 0xe6, 0x78, 0xb7]
      else if s = ''bar()'' then
        [0xfe, 0xbb, 0x0f, 0x7e, 0xc7, 0x03, 0x9a, 0xa2, 0xe9, 0x10, 0xa2, 0x19, 0xff, 0x64, 0x7f, 0xf8,
         0x2e, 0x58, 0xde, 0x88, 0x85, 0xd5, 0xa0, 0xf8, 0xda, 0x34, 0x06, 0x6e, 0xfa, 0xa5, 0x28, 0x46]
      else if s = ''baz(uint256)'' then
        [0xf3, 0xf7, 0x3f, 0x22, 0x0c, 0x72, 0xd5, 0x9c, 0xb9, 0x5e, 0x4a, 0x97, 0x7a, 0xac, 0xe8, 0xe7,
         0xcf, 0xc1, 0x49, 0x65, 0x04, 0x16, 0x83, 0x2c, 0x5c, 0x9f, 0x33, 0x01, 0x08, 0xfa, 0x31, 0x78]
      else replicate 32 0)"

definition example_toHex_Arith :: "32 word \<Rightarrow> HexPrefix \<Rightarrow> string" where
  "example_toHex_Arith w p =
     (if p = Add then ''0x'' else []) @
     toHex [ucast (drop_bit 24 w), ucast (drop_bit 16 w), ucast (drop_bit 8 w), ucast w]"

definition example_boilerplate :: assembly_Block where
  "example_boilerplate =
     (let zero = StLiteral (Literal defaultLocation Number ''0'' ''u256'') in
      AsmBlock defaultLocation
        [StFunctionDefinition (AsmFunctionDefinition defaultLocation ''ensureNoValueTransfer''
           (AsmBlock defaultLocation
              [StSwitch (Switch defaultLocation
                 (StFunctionCall (FunctionCall defaultLocation ''callvalue'' []))
                 [Case defaultLocation (Some (Literal defaultLocation Number ''0'' ''u256''))
                    (AsmBlock defaultLocation []),
                  Case defaultLocation None
                    (AsmBlock defaultLocation
                       [StFunctionCall (FunctionCall defaultLocation ''revert'' [zero, zero])])])])),
         StFunctionDefinition (AsmFunctionDefinition defaultLocation ''extractCallSignature''
           (AsmBlock defaultLocation
              [StOther ''sig := div(calldataload(0:u256), exp(2:u256, 224:u256))'']))])"

definition example_parse :: "string \<Rightarrow> assembly_Block option \<times> string list" where
  "example_parse s =
     (if s = dispatcherBoilerplate then (Some example_boilerplate, [])
      else (None, [''ParserError'']))"

definition example_externals :: Externals where
  "example_externals =
     \<lparr>keccak256 = example_keccak256, toHex_Arith = example_toHex_Arith, parse = example_parse\<rparr>"

definition example_foo :: FunctionDefinition where
  "example_foo =
     \<lparr>name = ''foo'', location = (20, 50, ''a.sol''), isImplemented = True, modifiers = [],
      parameters = [], returnParameters = [], isPartOfExternalInterface = True,
      isPayable = False, body = Block (40, 50, ''a.sol'') [Throw (42, 47, ''a.sol'')]\<rparr>"

definition example_bar :: FunctionDefinition where
  "example_bar =
     \<lparr>name = ''bar'', location = (52, 90, ''a.sol''), isImplemented = True, modifiers = [],
      parameters = [], returnParameters = [], isPartOfExternalInterface = True,
      isPayable = True,
      body = Block (70, 90, ''a.sol'')
               [OtherStatement [Block (75, 88, ''a.sol'') [Throw (77, 82, ''a.sol'')]]]\<rparr>"

definition example_fallback :: FunctionDefinition where
  "example_fallback =
     \<lparr>name = [], location = (92, 120, ''a.sol''), isImplemented = True, modifiers = [],
      parameters = [], returnParameters = [], isPartOfExternalInterface = False,
      isPayable = False, body = Block (110, 120, ''a.sol'') []\<rparr>"

definition example_contract :: ContractDefinition where
  "example_contract =
     \<lparr>contractKind = Contract, baseContracts = [], definedStructs = [], definedEnums = [],
      events = [], functionModifiers = [], fullyQualifiedName = ''a.sol:C'',
      contract_location = (0, 122, ''a.sol''),
      definedFunctions = [example_foo, example_bar, example_fallback]\<rparr>"

text \<open>The same function with one parameter, and a contract that declares it after \<open>foo\<close>.\<close>

definition example_baz :: FunctionDefinition where
  "example_baz =
     \<lparr>name = ''baz'', location = (52, 90, ''b.sol''), isImplemented = True, modifiers = [],
      parameters = [\<lparr>var_name = ''x'', canonicalTypeName = ''uint256''\<rparr>],
      returnParameters = [], isPartOfExternalInterface = True,
      isPayable = False, body = Block (70, 90, ''b.sol'') []\<rparr>"

definition example_unsupported :: ContractDefinition where
  "example_unsupported =
     \<lparr>contractKind = Contract, baseContracts = [], definedStructs = [], definedEnums = [],
      events = [], functionModifiers = [], fullyQualifiedName = ''b.sol:D'',
      contract_location = (0, 92, ''b.sol''),
      definedFunctions = [example_foo, example_baz]\<rparr>"

definition initialState :: IRGenerate where
  "initialState = \<lparr>heap = [], m_contracts = Map.empty, m_body = None,
                    m_currentFunction = idleContext\<rparr>"

text \<open>
  The generator after the example contract: its block holds the three functions, the two
  boilerplate helpers and the dispatcher; the context still holds the last function.
\<close>

definition example_revert :: "SourceLocation \<Rightarrow> assembly_Statement" where
  "example_revert loc =
     StFunctionCall (FunctionCall loc ''revert''
       [StLiteral (Literal defaultLocation Number ''0'' ''u256''),
        StLiteral (Literal defaultLocation Number ''0'' ''u256'')])"

definition example_foo_name :: string where
  "example_foo_name = ''_foo_c2985578b8f3b75f7dc66a767be2a4ef7d7c2224896a1c86e92ccf30bae678b7''"

definition example_bar_name :: string where
  "example_bar_name = ''_bar_febb0f7ec7039aa2e910a219ff647ff82e58de8885d5a0f8da34066efaa52846''"

definition example_switch :: assembly_Switch where
  "example_switch =
     Switch defaultLocation
       (StFunctionCall (FunctionCall defaultLocation ''extractCallSignature'' []))
       [Case defaultLocation (Some (Literal defaultLocation Number ''0xc2985578'' ''u256''))
          (AsmBlock defaultLocation
             [StFunctionCall (FunctionCall defaultLocation ''ensureNoValueTransfer'' []),
              StFunctionCall (FunctionCall defaultLocation example_foo_name [])]),
        Case defaultLocation (Some (Literal defaultLocation Number ''0xfebb0f7e'' ''u256''))
          (AsmBlock defaultLocation
             [StFunctionCall (FunctionCall defaultLocation example_bar_name [])]),
        Case defaultLocation None
          (AsmBlock defaultLocation
             [StFunctionCall (FunctionCall defaultLocation ''ensureNoValueTransfer'' []),
              StFunctionCall (FunctionCall defaultLocation ''fallback'' [])])]"

definition example_block :: assembly_Block where
  "example_block =
     AsmBlock (0, 122, ''a.sol'')
       ([StFunctionDefinition (AsmFunctionDefinition (20, 50, ''a.sol'') example_foo_name
           (AsmBlock defaultLocation [example_revert (42, 47, ''a.sol'')])),
         StFunctionDefinition (AsmFunctionDefinition (52, 90, ''a.sol'') example_bar_name
           (AsmBlock defaultLocation [example_revert (77, 82, ''a.sol'')])),
         StFunctionDefinition (AsmFunctionDefinition (92, 120, ''a.sol'') ''fallback''
           (AsmBlock defaultLocation []))] @
        statements example_boilerplate @
        [StSwitch example_switch])"

definition example_result :: IRGenerate where
  "example_result =
     \<lparr>heap = [example_block], m_contracts = [''a.sol:C'' \<mapsto> 0], m_body = Some 0,
      m_currentFunction =
        AsmFunctionDefinition (92, 120, ''a.sol'') ''fallback'' (AsmBlock defaultLocation [])\<rparr>"

text \<open>The generator inside the visit of \<open>foo\<close>, before its end.\<close>

definition example_active :: IRGenerate where
  "example_active =
     initialState\<lparr>m_currentFunction :=
       AsmFunctionDefinition (20, 50, ''a.sol'') example_foo_name
         (AsmBlock defaultLocation [example_revert (42, 47, ''a.sol'')])\<rparr>"

text \<open>The block that stays registered when the second example contract is rejected.\<close>

definition example_partial :: assembly_Block where
  "example_partial =
     AsmBlock (0, 92, ''b.sol'')
       [StFunctionDefinition (AsmFunctionDefinition (20, 50, ''a.sol'') example_foo_name
          (AsmBlock defaultLocation [example_revert (42, 47, ''a.sol'')]))]"

text \<open>The generator after that rejection, and a library that is rejected at once.\<close>

definition example_rejected :: IRGenerate where
  "example_rejected =
     \<lparr>heap = [example_partial], m_contracts = [''b.sol:D'' \<mapsto> 0], m_body = Some 0,
      m_currentFunction =
        AsmFunctionDefinition (20, 50, ''a.sol'') example_foo_name
          (AsmBlock defaultLocation [example_revert (42, 47, ''a.sol'')])\<rparr>"

definition example_library :: ContractDefinition where
  "example_library = example_contract\<lparr>contractKind := Library, events := [''E'']\<rparr>"


section \<open>Properties of the generator\<close>

lemma andThen_simps [simp]:
  "andThen (Inr st) k = k st"
  "andThen (Inl e) k = Inl e"
  by (simp_all add: andThen_def)

lemma extendContext_Nil [simp]: "extendContext [] cf = cf"
  by (simp add: extendContext_def)

lemma extendContext_append [simp]:
  "extendContext ss2 (extendContext ss1 cf) = extendContext (ss1 @ ss2) cf"
  by (simp add: extendContext_def)

lemma currentFunction_emplace_back_eq:
  "currentFunction_emplace_back s st =
     st\<lparr>m_currentFunction := extendContext [s] (m_currentFunction st)\<rparr>"
  by (simp add: currentFunction_emplace_back_def extendContext_def)

lemma fold_accept_emitted:
  assumes "\<And>s st. s \<in> set ss \<Longrightarrow>
             accept_Statement s st =
               st\<lparr>m_currentFunction := extendContext (emitted s) (m_currentFunction st)\<rparr>"
  shows "fold accept_Statement ss st =
           st\<lparr>m_currentFunction := extendContext (concat (map emitted ss)) (m_currentFunction st)\<rparr>"
  using assms
proof (induction ss arbitrary: st)
  case Nil
  show ?case by simp
next
  case (Cons s ss)
  have step: "accept_Statement s st =
      st\<lparr>m_currentFunction := extendContext (emitted s) (m_currentFunction st)\<rparr>"
    using Cons.prems by simp
  have rest: "\<And>st'. fold accept_Statement ss st' =
      st'\<lparr>m_currentFunction := extendContext (concat (map emitted ss)) (m_currentFunction st')\<rparr>"
    using Cons.IH Cons.prems by simp
  show ?case by (simp add: step rest)
qed

lemma accept_Statement_emitted:
  "accept_Statement s st =
     st\<lparr>m_currentFunction := extendContext (emitted s) (m_currentFunction st)\<rparr>"
proof (induction s arbitrary: st)
  case (Block loc ss)
  then show ?case by (simp add: fold_accept_emitted)
next
  case (Throw loc)
  show ?case
    by (simp add: visit_Throw_def createRevert_def currentFunction_emplace_back_eq Let_def)
next
  case (InlineAssembly loc operations)
  show ?case by (simp add: visit_InlineAssembly_def currentFunction_emplace_back_eq)
next
  case (OtherStatement ss)
  then show ?case by (simp add: fold_accept_emitted)
qed

lemma functionViolations_Nil:
  "functionViolations f = [] \<longleftrightarrow>
     isImplemented f \<and> modifiers f = [] \<and> parameters f = [] \<and> returnParameters f = []"
  by (simp add: functionViolations_def)

lemma visit_FunctionDefinition_ok:
  assumes "functionViolations f = []"
  shows "visit_FunctionDefinition ext f st = Inr (st\<lparr>m_currentFunction := functionIR ext f\<rparr>)"
  using assms
  by (simp add: functionViolations_Nil visit_FunctionDefinition_def solUnimplementedAssert_def
      accept_Statement_emitted functionIR_def extendContext_def)

lemma visit_FunctionDefinition_fail:
  assumes "functionViolations f \<noteq> []"
  shows "visit_FunctionDefinition ext f st =
           Inl (UnimplementedFeatureError (hd (functionViolations f)), st)"
  using assms
  by (auto simp add: functionViolations_def visit_FunctionDefinition_def solUnimplementedAssert_def)

lemma appendToBody_simps [simp]:
  "m_body (appendToBody a ss st) = m_body st"
  "m_contracts (appendToBody a ss st) = m_contracts st"
  "m_currentFunction (appendToBody a ss st) = m_currentFunction st"
  "length (heap (appendToBody a ss st)) = length (heap st)"
  by (simp_all add: appendToBody_def)

lemma appendToBody_Nil [simp]: "appendToBody a [] st = st"
  by (simp add: appendToBody_def)

lemma appendToBody_append [simp]:
  "a < length (heap st) \<Longrightarrow>
     appendToBody a ss2 (appendToBody a ss1 st) = appendToBody a (ss1 @ ss2) st"
  by (simp add: appendToBody_def)

lemma appendToBody_context:
  "appendToBody a ss (st\<lparr>m_currentFunction := cf\<rparr>) = (appendToBody a ss st)\<lparr>m_currentFunction := cf\<rparr>"
  by (simp add: appendToBody_def)

lemma body_emplace_back_ok:
  assumes "m_body st = Some a" "a < length (heap st)"
  shows "body_emplace_back s st = Inr (appendToBody a [s] st)"
  using assms by (simp add: body_emplace_back_def appendToBody_def)

lemma accept_FunctionDefinition_ok:
  assumes "functionViolations f = []" "m_body st = Some a" "a < length (heap st)"
  shows "accept_FunctionDefinition ext f st =
           Inr (appendToBody a [StFunctionDefinition (functionIR ext f)]
                  (st\<lparr>m_currentFunction := functionIR ext f\<rparr>))"
  using assms
  by (simp add: accept_FunctionDefinition_def visit_FunctionDefinition_ok
      endVisit_FunctionDefinition_def body_emplace_back_ok)

lemma accept_FunctionDefinition_fail:
  assumes "functionViolations f \<noteq> []"
  shows "accept_FunctionDefinition ext f st =
           Inl (UnimplementedFeatureError (hd (functionViolations f)), st)"
  using assms by (simp add: accept_FunctionDefinition_def visit_FunctionDefinition_fail)

lemma contextAfter_Cons:
  "contextAfter ext fs (functionIR ext f) = contextAfter ext (f # fs) cf"
  by (simp add: contextAfter_def)

lemma listAccept_ok:
  assumes "\<forall>f \<in> set fs. functionViolations f = []" "m_body st = Some a" "a < length (heap st)"
  shows "listAccept ext fs st =
           Inr (appendToBody a (map (\<lambda>f. StFunctionDefinition (functionIR ext f)) fs)
                  (st\<lparr>m_currentFunction := contextAfter ext fs (m_currentFunction st)\<rparr>))"
  using assms
proof (induction fs arbitrary: st)
  case Nil
  show ?case by (simp add: contextAfter_def)
next
  case (Cons f fs)
  let ?st1 = "appendToBody a [StFunctionDefinition (functionIR ext f)]
                (st\<lparr>m_currentFunction := functionIR ext f\<rparr>)"
  have first: "accept_FunctionDefinition ext f st = Inr ?st1"
    using Cons.prems by (simp add: accept_FunctionDefinition_ok)
  have rest: "listAccept ext fs ?st1 =
      Inr (appendToBody a (map (\<lambda>f. StFunctionDefinition (functionIR ext f)) fs)
             (?st1\<lparr>m_currentFunction := contextAfter ext fs (m_currentFunction ?st1)\<rparr>))"
    using Cons.prems by (intro Cons.IH) simp_all
  show ?case
    using Cons.prems(3)
    by (simp add: first rest appendToBody_context [symmetric] contextAfter_Cons [of ext fs f "m_currentFunction st"])
qed

lemma listAccept_fail:
  assumes "\<forall>g \<in> set pre. functionViolations g = []" "functionViolations f \<noteq> []"
    "m_body st = Some a" "a < length (heap st)"
  shows "listAccept ext (pre @ f # post) st =
           Inl (UnimplementedFeatureError (hd (functionViolations f)),
                appendToBody a (map (\<lambda>f. StFunctionDefinition (functionIR ext f)) pre)
                  (st\<lparr>m_currentFunction := contextAfter ext pre (m_currentFunction st)\<rparr>))"
  using assms
proof (induction pre arbitrary: st)
  case Nil
  then show ?case by (simp add: contextAfter_def accept_FunctionDefinition_fail)
next
  case (Cons g pre)
  let ?st1 = "appendToBody a [StFunctionDefinition (functionIR ext g)]
                (st\<lparr>m_currentFunction := functionIR ext g\<rparr>)"
  have first: "accept_FunctionDefinition ext g st = Inr ?st1"
    using Cons.prems by (simp add: accept_FunctionDefinition_ok)
  have rest: "listAccept ext (pre @ f # post) ?st1 =
      Inl (UnimplementedFeatureError (hd (functionViolations f)),
           appendToBody a (map (\<lambda>f. StFunctionDefinition (functionIR ext f)) pre)
             (?st1\<lparr>m_currentFunction := contextAfter ext pre (m_currentFunction ?st1)\<rparr>))"
    using Cons.prems by (intro Cons.IH) simp_all
  show ?case
    using Cons.prems(4)
    by (simp add: first rest appendToBody_context [symmetric] contextAfter_Cons [of ext pre g "m_currentFunction st"])
qed

lemma emplace_all_ok:
  assumes "m_body st = Some a" "a < length (heap st)"
  shows "emplace_all ss st = Inr (appendToBody a ss st)"
  using assms
proof (induction ss arbitrary: st)
  case Nil
  show ?case by simp
next
  case (Cons s ss)
  have "emplace_all ss (appendToBody a [s] st) = Inr (appendToBody a ss (appendToBody a [s] st))"
    using Cons.prems by (intro Cons.IH) simp_all
  then show ?case using Cons.prems by (simp add: body_emplace_back_ok)
qed

lemma appendFunction_ok:
  assumes "parse ext s = (Some pb, [])" "m_body st = Some a" "a < length (heap st)"
  shows "appendFunction ext s st = Inr (appendToBody a (statements pb) st)"
  using assms by (simp add: appendFunction_def solAssert_def emplace_all_ok)

lemma appendFunction_fail:
  assumes "fst (parse ext s) = None \<or> snd (parse ext s) \<noteq> []"
  shows "appendFunction ext s st = Inl (InternalCompilerError [], st)"
  using assms by (auto simp add: appendFunction_def solAssert_def split: prod.splits)

lemma dispatchCases_eq:
  "dispatchCases ext fs sw =
     Switch (sw_location sw) (expression sw)
       (cases sw @ map (caseFor ext) (filter isPartOfExternalInterface fs))"
proof (induction fs arbitrary: sw)
  case Nil
  show ?case by simp
next
  case (Cons f fs)
  show ?case
    by (simp add: Cons.IH Let_def cases_emplace_back_def block_emplace_back_def
        createFunctionCall_def caseFor_def callTo_def)
qed

lemma dispatcherSwitch_eq:
  "dispatcherSwitch ext c =
     Switch defaultLocation (callTo ''extractCallSignature'')
       (map (caseFor ext) (externalFunctions c) @ [defaultCase c])"
  by (simp add: dispatcherSwitch_def dispatchCases_eq cases_emplace_back_def
      createFunctionCall_def callTo_def externalFunctions_def)

lemma defaultCase_eq:
  "defaultCase c =
     Case defaultLocation None
       (AsmBlock defaultLocation
          (case fallbackFunction c of
             Some f \<Rightarrow> (if isPayable f then [] else [callTo ''ensureNoValueTransfer'']) @
                        [callTo ''fallback'']
           | None \<Rightarrow> [StFunctionCall (FunctionCall defaultLocation ''revert''
                         [StLiteral (Literal defaultLocation Number ''0'' ''u256''),
                          StLiteral (Literal defaultLocation Number ''0'' ''u256'')])]))"
  by (simp add: defaultCase_def Let_def block_emplace_back_def createFunctionCall_def
      callTo_def wrapInBlock_def createRevert_def split: option.splits)

lemma buildDispatcher_ok:
  assumes "parse ext dispatcherBoilerplate = (Some pb, [])" "m_body st = Some a" "a < length (heap st)"
  shows "buildDispatcher ext c st =
           Inr (appendToBody a (statements pb @ [StSwitch (dispatcherSwitch ext c)]) st)"
  using assms by (simp add: buildDispatcher_def appendFunction_ok body_emplace_back_ok)

lemma buildDispatcher_fail:
  assumes "fst (parse ext dispatcherBoilerplate) = None \<or> snd (parse ext dispatcherBoilerplate) \<noteq> []"
  shows "buildDispatcher ext c st = Inl (InternalCompilerError [], st)"
  using assms by (simp add: buildDispatcher_def appendFunction_fail)

lemma contractViolations_Nil:
  "contractViolations c = [] \<longleftrightarrow>
     contractKind c = Contract \<and> baseContracts c = [] \<and> definedStructs c = [] \<and>
     definedEnums c = [] \<and> events c = [] \<and> functionModifiers c = []"
  by (simp add: contractViolations_def)

lemma visit_ContractDefinition_unsupported:
  assumes "contractViolations c \<noteq> []"
  shows "visit_ContractDefinition ext c st =
           Inl (UnimplementedFeatureError (hd (contractViolations c)), st)"
  using assms
  by (auto simp add: contractViolations_def visit_ContractDefinition_def solUnimplementedAssert_def)

lemma visit_ContractDefinition_duplicate:
  assumes "contractViolations c = []" "m_contracts st (fullyQualifiedName c) \<noteq> None"
  shows "visit_ContractDefinition ext c st = Inl (InternalCompilerError [], st)"
  using assms
  by (auto simp add: contractViolations_Nil visit_ContractDefinition_def solUnimplementedAssert_def
      solAssert_def)

lemma visit_ContractDefinition_fresh:
  assumes "contractViolations c = []" "m_contracts st (fullyQualifiedName c) = None"
  shows "visit_ContractDefinition ext c st =
           andThen (listAccept ext (definedFunctions c) (registered c st)) (buildDispatcher ext c)"
  using assms
  by (simp add: contractViolations_Nil visit_ContractDefinition_def solUnimplementedAssert_def
      solAssert_def registered_def Let_def)

lemma registered_simps [simp]:
  "m_body (registered c st) = Some (length (heap st))"
  "length (heap (registered c st)) = Suc (length (heap st))"
  "m_currentFunction (registered c st) = m_currentFunction st"
  "m_contracts (registered c st) = (m_contracts st)(fullyQualifiedName c \<mapsto> length (heap st))"
  by (simp_all add: registered_def)

lemma contractBlock_registered:
  "contractBlock (appendToBody (length (heap st)) ss ((registered c st)\<lparr>m_currentFunction := cf\<rparr>))
     (fullyQualifiedName c) = Some (AsmBlock (contract_location c) ss)"
  by (simp add: contractBlock_def appendToBody_def registered_def)

lemma visit_ContractDefinition_ok:
  assumes "contractViolations c = []" "m_contracts st (fullyQualifiedName c) = None"
    "\<forall>f \<in> set (definedFunctions c). functionViolations f = []"
    "parse ext dispatcherBoilerplate = (Some pb, [])"
  shows "visit_ContractDefinition ext c st =
           Inr (appendToBody (length (heap st))
                  (map (\<lambda>f. StFunctionDefinition (functionIR ext f)) (definedFunctions c) @
                   statements pb @ [StSwitch (dispatcherSwitch ext c)])
                  ((registered c st)\<lparr>m_currentFunction :=
                     contextAfter ext (definedFunctions c) (m_currentFunction st)\<rparr>))"
proof -
  let ?a = "length (heap st)"
  let ?st0 = "(registered c st)\<lparr>m_currentFunction :=
                contextAfter ext (definedFunctions c) (m_currentFunction st)\<rparr>"
  let ?st1 = "appendToBody ?a
                (map (\<lambda>f. StFunctionDefinition (functionIR ext f)) (definedFunctions c)) ?st0"
  have "listAccept ext (definedFunctions c) (registered c st) =
      Inr (appendToBody ?a (map (\<lambda>f. StFunctionDefinition (functionIR ext f)) (definedFunctions c))
             ((registered c st)\<lparr>m_currentFunction :=
                contextAfter ext (definedFunctions c) (m_currentFunction (registered c st))\<rparr>))"
    using assms(3) by (intro listAccept_ok) simp_all
  then have fs: "listAccept ext (definedFunctions c) (registered c st) = Inr ?st1"
    by simp
  have disp: "buildDispatcher ext c ?st1 =
      Inr (appendToBody ?a (statements pb @ [StSwitch (dispatcherSwitch ext c)]) ?st1)"
    using assms(4) by (intro buildDispatcher_ok) simp_all
  have merge: "appendToBody ?a (statements pb @ [StSwitch (dispatcherSwitch ext c)]) ?st1 =
      appendToBody ?a
        (map (\<lambda>f. StFunctionDefinition (functionIR ext f)) (definedFunctions c) @
         statements pb @ [StSwitch (dispatcherSwitch ext c)]) ?st0"
    by (simp add: appendToBody_append)
  show ?thesis
    unfolding visit_ContractDefinition_fresh [OF assms(1,2)] fs andThen_simps disp merge ..
qed

lemma visit_ContractDefinition_function_fail:
  assumes "contractViolations c = []" "m_contracts st (fullyQualifiedName c) = None"
    "definedFunctions c = pre @ f # post"
    "\<forall>g \<in> set pre. functionViolations g = []" "functionViolations f \<noteq> []"
  shows "visit_ContractDefinition ext c st =
           Inl (UnimplementedFeatureError (hd (functionViolations f)),
                appendToBody (length (heap st))
                  (map (\<lambda>f. StFunctionDefinition (functionIR ext f)) pre)
                  ((registered c st)\<lparr>m_currentFunction :=
                     contextAfter ext pre (m_currentFunction st)\<rparr>))"
proof -
  have "listAccept ext (pre @ f # post) (registered c st) =
      Inl (UnimplementedFeatureError (hd (functionViolations f)),
           appendToBody (length (heap st)) (map (\<lambda>f. StFunctionDefinition (functionIR ext f)) pre)
             ((registered c st)\<lparr>m_currentFunction :=
                contextAfter ext pre (m_currentFunction (registered c st))\<rparr>))"
    using assms(4,5) by (intro listAccept_fail) simp_all
  then show ?thesis
    by (simp add: visit_ContractDefinition_fresh [OF assms(1,2)] assms(3))
qed

lemma visit_ContractDefinition_parse_fail:
  assumes "contractViolations c = []" "m_contracts st (fullyQualifiedName c) = None"
    "\<forall>f \<in> set (definedFunctions c). functionViolations f = []"
    "fst (parse ext dispatcherBoilerplate) = None \<or> snd (parse ext dispatcherBoilerplate) \<noteq> []"
  shows "\<exists>st'. visit_ContractDefinition ext c st = Inl (InternalCompilerError [], st')"
proof -
  have "\<exists>st1. listAccept ext (definedFunctions c) (registered c st) = Inr st1"
    using assms(3) listAccept_ok [of "definedFunctions c" "registered c st" "length (heap st)" ext]
    by simp
  then show ?thesis
    by (auto simp add: visit_ContractDefinition_fresh [OF assms(1,2)] buildDispatcher_fail [OF assms(4)])
qed

lemma visit_ContractDefinition_Inr:
  assumes "visit_ContractDefinition ext c st = Inr st'"
  shows "contractViolations c = [] \<and> m_contracts st (fullyQualifiedName c) = None \<and>
         (\<forall>f \<in> set (definedFunctions c). functionViolations f = []) \<and>
         (\<exists>pb. parse ext dispatcherBoilerplate = (Some pb, []))"
proof -
  have v: "contractViolations c = []"
    using assms visit_ContractDefinition_unsupported [of c ext st] by auto
  have r: "m_contracts st (fullyQualifiedName c) = None"
    using assms v visit_ContractDefinition_duplicate [of c st ext]
    by (cases "m_contracts st (fullyQualifiedName c)") auto
  have f: "\<forall>f \<in> set (definedFunctions c). functionViolations f = []"
  proof (rule ccontr)
    assume "\<not> ?thesis"
    then have "\<exists>x \<in> set (definedFunctions c). functionViolations x \<noteq> []" by simp
    then obtain pre g post where
      "definedFunctions c = pre @ g # post" "functionViolations g \<noteq> []"
      "\<forall>h \<in> set pre. \<not> functionViolations h \<noteq> []"
      using split_list_first_prop [of "definedFunctions c" "\<lambda>x. functionViolations x \<noteq> []"] by blast
    then show False
      using assms visit_ContractDefinition_function_fail [OF v r, of pre g post ext] by simp
  qed
  have p: "\<exists>pb. parse ext dispatcherBoilerplate = (Some pb, [])"
  proof (rule ccontr)
    assume "\<not> ?thesis"
    then have "fst (parse ext dispatcherBoilerplate) = None \<or> snd (parse ext dispatcherBoilerplate) \<noteq> []"
      by (cases "parse ext dispatcherBoilerplate") auto
    then show False
      using assms visit_ContractDefinition_parse_fail [OF v r f, of ext] by auto
  qed
  show ?thesis using v r f p by simp
qed

lemma visit_ContractDefinition_block:
  assumes "visit_ContractDefinition ext c st = Inr st'"
  shows "\<exists>pb. parse ext dispatcherBoilerplate = (Some pb, []) \<and>
           contractBlock st' (fullyQualifiedName c) =
             Some (AsmBlock (contract_location c)
                    (map (\<lambda>f. StFunctionDefinition (functionIR ext f)) (definedFunctions c) @
                     statements pb @ [StSwitch (dispatcherSwitch ext c)]))"
proof -
  from visit_ContractDefinition_Inr [OF assms] obtain pb where
    v: "contractViolations c = []" and r: "m_contracts st (fullyQualifiedName c) = None" and
    f: "\<forall>f \<in> set (definedFunctions c). functionViolations f = []" and
    p: "parse ext dispatcherBoilerplate = (Some pb, [])"
    by blast
  have "st' = appendToBody (length (heap st))
                  (map (\<lambda>f. StFunctionDefinition (functionIR ext f)) (definedFunctions c) @
                   statements pb @ [StSwitch (dispatcherSwitch ext c)])
                  ((registered c st)\<lparr>m_currentFunction :=
                     contextAfter ext (definedFunctions c) (m_currentFunction st)\<rparr>)"
    using assms visit_ContractDefinition_ok [OF v r f p] by simp
  then show ?thesis using p by (simp add: contractBlock_registered)
qed

lemma cases_dispatcherSwitch:
  "cases (dispatcherSwitch ext c) = map (caseFor ext) (externalFunctions c) @ [defaultCase c]"
  by (simp add: dispatcherSwitch_eq)

lemma nth_cases_dispatcherSwitch:
  "i < length (externalFunctions c) \<Longrightarrow>
     cases (dispatcherSwitch ext c) ! i = caseFor ext (externalFunctions c ! i)"
  by (simp add: cases_dispatcherSwitch nth_append)

lemma last_cases_dispatcherSwitch:
  "last (cases (dispatcherSwitch ext c)) = defaultCase c"
  by (simp add: cases_dispatcherSwitch)

lemma fallbackFunction_name: "fallbackFunction c = Some f \<Longrightarrow> name f = []"
  by (auto simp add: fallbackFunction_def find_Some_iff)

lemma uniqueFunctionName_not_guard: "uniqueFunctionName ext f \<noteq> ''ensureNoValueTransfer''"
  by (simp add: uniqueFunctionName_def)


section \<open>The examples, evaluated\<close>

lemmas example_defs =
  example_externals_def example_keccak256_def example_toHex_Arith_def example_parse_def
  example_boilerplate_def example_foo_def example_bar_def example_fallback_def
  example_contract_def example_baz_def example_unsupported_def initialState_def
  idleContext_def example_revert_def example_foo_name_def example_bar_name_def
  example_switch_def example_block_def example_result_def

lemmas run_defs =
  visit_ContractDefinition_def solUnimplementedAssert_def solAssert_def
  Let_def accept_FunctionDefinition_def visit_FunctionDefinition_def
  endVisit_FunctionDefinition_def body_emplace_back_def uniqueFunctionName_def
  externalSignature_def toHex_def hexDigit_def visit_Throw_def visit_InlineAssembly_def
  currentFunction_emplace_back_def createRevert_def buildDispatcher_def appendFunction_def
  dispatcherSwitch_def defaultCase_def fallbackFunction_def cases_emplace_back_def
  block_emplace_back_def createFunctionCall_def wrapInBlock_def FixedHash4_def
  FixedHash4_Arith_def defaultLocation_def

lemma example_run:
  "visit_ContractDefinition example_externals example_contract initialState = Inr example_result"
  by (simp add: example_defs run_defs)

lemma example_dispatcherSwitch:
  "dispatcherSwitch example_externals example_contract = example_switch"
  by (simp add: example_defs run_defs)

lemma example_externalFunctions:
  "externalFunctions example_contract = [example_foo, example_bar]"
  by (simp add: externalFunctions_def example_contract_def example_foo_def example_bar_def
      example_fallback_def)

lemma example_fallbackFunction: "fallbackFunction example_contract = Some example_fallback"
  by (simp add: fallbackFunction_def example_contract_def example_foo_def example_bar_def
      example_fallback_def)

lemma example_selectors:
  "toHex_Arith example_externals
     (FixedHash4_Arith (FixedHash4 (keccak256 example_externals (externalSignature example_foo)))) Add
   = ''0xc2985578''"
  "toHex_Arith example_externals
     (FixedHash4_Arith (FixedHash4 (keccak256 example_externals (externalSignature example_bar)))) Add
   = ''0xfebb0f7e''"
  by (simp_all add: example_defs run_defs)

lemma example_names:
  "uniqueFunctionName example_externals example_foo = example_foo_name"
  "uniqueFunctionName example_externals example_bar = example_bar_name"
  "uniqueFunctionName example_externals example_fallback = ''fallback''"
  by (simp_all add: example_defs run_defs)

lemma example_contractBlock: "contractBlock example_result ''a.sol:C'' = Some example_block"
  by (simp add: contractBlock_def example_result_def)

lemma example_fullyQualifiedName: "fullyQualifiedName example_contract = ''a.sol:C''"
  by (simp add: example_contract_def)

lemma example_no_fallback: "fallbackFunction example_unsupported = None"
  by (simp add: fallbackFunction_def example_unsupported_def example_foo_def example_baz_def)

lemma example_definedFunctions:
  "definedFunctions example_contract = [example_foo, example_bar, example_fallback]"
  by (simp add: example_contract_def)

lemma example_spec_names:
  "spec_internalName example_externals example_foo = example_foo_name"
  "spec_internalName example_externals example_bar = example_bar_name"
  "spec_internalName example_externals example_fallback = ''fallback''"
  by (simp_all add: example_defs spec_internalName_def externalSignature_def toHex_def hexDigit_def)

lemma example_parse_boilerplate:
  "parse example_externals dispatcherBoilerplate = (Some example_boilerplate, [])"
  by (simp add: example_externals_def example_parse_def)

lemma example_rejected_run:
  "visit_ContractDefinition example_externals example_unsupported initialState =
     Inl (UnimplementedFeatureError ''Parameters not supported yet.'', example_rejected)"
  by (simp add: example_defs example_rejected_def example_partial_def run_defs)

lemma example_active_run:
  "visit_FunctionDefinition example_externals example_foo initialState = Inr example_active"
  by (simp add: example_defs example_active_def run_defs)

lemma example_violations:
  "contractViolations example_library =
     [''Non-contracts (libraries, interfaces) are not supported yet.'', ''Events not supported yet.'']"
  "contractViolations example_unsupported = []"
  "functionViolations example_foo = []"
  "functionViolations example_baz = [''Parameters not supported yet.'']"
  "contractViolations example_contract = []"
  "functionViolations example_bar = []"
  by (simp_all add: contractViolations_def functionViolations_def example_library_def
      example_contract_def example_unsupported_def example_foo_def example_bar_def example_baz_def)


section \<open>The claims\<close>

text \<open>
  Claim C1. A contract that generates successfully ends with the dispatcher switch. With
  \<open>N\<close> externally callable functions the switch has \<open>N + 1\<close> cases: case \<open>i\<close> carries the
  selector of the \<open>i\<close>-th such function in declaration order, and the case after them, the
  last one, is the only one without a value, the default.
\<close>

theorem dispatcher_cases:
  assumes "visit_ContractDefinition ext c st = Inr st'"
  shows "contractBlock st' (fullyQualifiedName c) \<noteq> None \<and>
         last (statements (the (contractBlock st' (fullyQualifiedName c)))) =
           StSwitch (dispatcherSwitch ext c) \<and>
         length (cases (dispatcherSwitch ext c)) = length (externalFunctions c) + 1 \<and>
         (\<forall>i < length (externalFunctions c).
            map_option lit_value (case_value (cases (dispatcherSwitch ext c) ! i)) =
              Some (toHex_Arith ext
                      (FixedHash4_Arith (FixedHash4
                         (keccak256 ext (externalSignature (externalFunctions c ! i))))) Add)) \<and>
         case_value (cases (dispatcherSwitch ext c) ! length (externalFunctions c)) = None"
proof -
  from visit_ContractDefinition_block [OF assms] obtain pb where
    blk: "contractBlock st' (fullyQualifiedName c) =
             Some (AsmBlock (contract_location c)
                    (map (\<lambda>f. StFunctionDefinition (functionIR ext f)) (definedFunctions c) @
                     statements pb @ [StSwitch (dispatcherSwitch ext c)]))"
    by blast
  have a: "contractBlock st' (fullyQualifiedName c) \<noteq> None" using blk by simp
  have b: "last (statements (the (contractBlock st' (fullyQualifiedName c)))) =
           StSwitch (dispatcherSwitch ext c)"
    using blk by simp
  have c: "length (cases (dispatcherSwitch ext c)) = length (externalFunctions c) + 1"
    by (simp add: cases_dispatcherSwitch)
  have d: "\<forall>i < length (externalFunctions c).
            map_option lit_value (case_value (cases (dispatcherSwitch ext c) ! i)) =
              Some (toHex_Arith ext
                      (FixedHash4_Arith (FixedHash4
                         (keccak256 ext (externalSignature (externalFunctions c ! i))))) Add)"
    by (simp add: nth_cases_dispatcherSwitch caseFor_def)
  have e: "case_value (cases (dispatcherSwitch ext c) ! length (externalFunctions c)) = None"
    by (simp add: cases_dispatcherSwitch nth_append defaultCase_eq)
  show ?thesis using a b c d e by blast
qed

theorem dispatcher_cases_witness:
  "visit_ContractDefinition example_externals example_contract initialState = Inr example_result \<and>
   last (statements (the (contractBlock example_result ''a.sol:C''))) = StSwitch example_switch \<and>
   length (cases example_switch) = 3 \<and>
   map_option lit_value (case_value (cases example_switch ! 0)) = Some ''0xc2985578'' \<and>
   map_option lit_value (case_value (cases example_switch ! 1)) = Some ''0xfebb0f7e'' \<and>
   case_value (cases example_switch ! 2) = None"
  using dispatcher_cases [OF example_run]
  by (simp add: example_run example_dispatcherSwitch example_externalFunctions
      example_fullyQualifiedName example_selectors All_less_Suc eval_nat_numeral)

text \<open>
  Claim C2. The literal on the case of an externally callable function is a number literal
  with the type tag \<open>u256\<close>; its value is the hex form, with prefix, of the four low
  bytes of the Keccak-256 digest of the canonical signature: the name, then the
  comma-joined canonical parameter type names between parentheses.
\<close>

theorem selector_literal:
  assumes "\<forall>s. length (keccak256 ext s) = 32"
    and "i < length (externalFunctions c)"
    and "f = externalFunctions c ! i"
  shows "case_value (cases (dispatcherSwitch ext c) ! i) =
           Some (Literal defaultLocation Number
                  (toHex_Arith ext
                     (FixedHash4_Arith
                        (take 4 (keccak256 ext
                           (name f @ ''('' @ commaJoin (map canonicalTypeName (parameters f)) @ '')''))))
                     Add)
                  ''u256'')"
proof -
  have "FixedHash4 (keccak256 ext (externalSignature f)) = take 4 (keccak256 ext (externalSignature f))"
    using assms(1) by (simp add: FixedHash4_def)
  then show ?thesis
    using assms(2,3) by (simp add: nth_cases_dispatcherSwitch caseFor_def externalSignature_def)
qed

theorem selector_literal_witness:
  "(\<forall>s. length (keccak256 example_externals s) = 32) \<and>
   (0::nat) < length (externalFunctions example_contract) \<and>
   example_foo = externalFunctions example_contract ! 0 \<and>
   case_value (cases (dispatcherSwitch example_externals example_contract) ! 0) =
     Some (Literal defaultLocation Number ''0xc2985578'' ''u256'') \<and>
   (1::nat) < length (externalFunctions example_unsupported) \<and>
   example_baz = externalFunctions example_unsupported ! 1 \<and>
   case_value (cases (dispatcherSwitch example_externals example_unsupported) ! 1) =
     Some (Literal defaultLocation Number ''0xf3f73f22'' ''u256'')"
proof -
  have h1: "\<forall>s. length (keccak256 example_externals s) = 32"
    by (simp add: example_externals_def example_keccak256_def)
  have h2: "(0::nat) < length (externalFunctions example_contract)"
    by (simp add: example_externalFunctions)
  have h3: "example_foo = externalFunctions example_contract ! 0"
    by (simp add: example_externalFunctions)
  have fs: "externalFunctions example_unsupported = [example_foo, example_baz]"
    by (simp add: externalFunctions_def example_unsupported_def example_foo_def example_baz_def)
  have h4: "(1::nat) < length (externalFunctions example_unsupported)"
    by (simp add: fs)
  have h5: "example_baz = externalFunctions example_unsupported ! 1"
    by (simp add: fs)
  have v: "toHex_Arith example_externals
             (FixedHash4_Arith
                (take 4 (keccak256 example_externals
                   (name example_foo @ ''('' @
                    commaJoin (map canonicalTypeName (parameters example_foo)) @ '')''))))
             Add = ''0xc2985578''"
    by (simp add: example_defs run_defs)
  have w: "toHex_Arith example_externals
             (FixedHash4_Arith
                (take 4 (keccak256 example_externals
                   (name example_baz @ ''('' @
                    commaJoin (map canonicalTypeName (parameters example_baz)) @ '')''))))
             Add = ''0xf3f73f22''"
    by (simp add: example_defs run_defs)
  from selector_literal [OF h1 h2 h3, unfolded v] selector_literal [OF h1 h4 h5, unfolded w]
    h1 h2 h3 h4 h5
  show ?thesis by blast
qed

text \<open>
  Claim C3. The body of a dispatch case, and of the default case when a fallback is
  declared, is the call of the function's unique name, preceded by the call of
  \<open>ensureNoValueTransfer\<close> exactly when the function is not payable.
\<close>

theorem value_guard:
  "(\<forall>i < length (externalFunctions c).
      statements (case_body (cases (dispatcherSwitch ext c) ! i)) =
        (if isPayable (externalFunctions c ! i) then [] else [callTo ''ensureNoValueTransfer'']) @
        [callTo (uniqueFunctionName ext (externalFunctions c ! i))] \<and>
      (hd (statements (case_body (cases (dispatcherSwitch ext c) ! i))) =
         callTo ''ensureNoValueTransfer'') = (\<not> isPayable (externalFunctions c ! i))) \<and>
   (\<forall>f. fallbackFunction c = Some f \<longrightarrow>
      statements (case_body (last (cases (dispatcherSwitch ext c)))) =
        (if isPayable f then [] else [callTo ''ensureNoValueTransfer'']) @
        [callTo (uniqueFunctionName ext f)] \<and>
      (hd (statements (case_body (last (cases (dispatcherSwitch ext c))))) =
         callTo ''ensureNoValueTransfer'') = (\<not> isPayable f))"
proof -
  have ext_cases: "\<forall>i < length (externalFunctions c).
      statements (case_body (cases (dispatcherSwitch ext c) ! i)) =
        (if isPayable (externalFunctions c ! i) then [] else [callTo ''ensureNoValueTransfer'']) @
        [callTo (uniqueFunctionName ext (externalFunctions c ! i))] \<and>
      (hd (statements (case_body (cases (dispatcherSwitch ext c) ! i))) =
         callTo ''ensureNoValueTransfer'') = (\<not> isPayable (externalFunctions c ! i))"
    by (simp add: nth_cases_dispatcherSwitch caseFor_def callTo_def uniqueFunctionName_not_guard)
  have fb: "\<forall>f. fallbackFunction c = Some f \<longrightarrow>
      statements (case_body (last (cases (dispatcherSwitch ext c)))) =
        (if isPayable f then [] else [callTo ''ensureNoValueTransfer'']) @
        [callTo (uniqueFunctionName ext f)] \<and>
      (hd (statements (case_body (last (cases (dispatcherSwitch ext c))))) =
         callTo ''ensureNoValueTransfer'') = (\<not> isPayable f)"
  proof (intro allI impI)
    fix f assume f: "fallbackFunction c = Some f"
    then have "uniqueFunctionName ext f = ''fallback''"
      by (simp add: uniqueFunctionName_def fallbackFunction_name)
    then show "statements (case_body (last (cases (dispatcherSwitch ext c)))) =
        (if isPayable f then [] else [callTo ''ensureNoValueTransfer'']) @
        [callTo (uniqueFunctionName ext f)] \<and>
      (hd (statements (case_body (last (cases (dispatcherSwitch ext c))))) =
         callTo ''ensureNoValueTransfer'') = (\<not> isPayable f)"
      using f by (simp add: last_cases_dispatcherSwitch defaultCase_eq callTo_def)
  qed
  show ?thesis using ext_cases fb by blast
qed

theorem value_guard_witness:
  "(0::nat) < length (externalFunctions example_contract) \<and>
   (1::nat) < length (externalFunctions example_contract) \<and>
   fallbackFunction example_contract = Some example_fallback \<and>
   \<not> isPayable example_foo \<and> isPayable example_bar \<and> \<not> isPayable example_fallback \<and>
   statements (case_body (cases (dispatcherSwitch example_externals example_contract) ! 0)) =
     [callTo ''ensureNoValueTransfer'', callTo example_foo_name] \<and>
   statements (case_body (cases (dispatcherSwitch example_externals example_contract) ! 1)) =
     [callTo example_bar_name] \<and>
   statements (case_body (last (cases (dispatcherSwitch example_externals example_contract)))) =
     [callTo ''ensureNoValueTransfer'', callTo ''fallback'']"
proof -
  have p: "\<not> isPayable example_foo" "isPayable example_bar" "\<not> isPayable example_fallback"
    by (simp_all add: example_foo_def example_bar_def example_fallback_def)
  show ?thesis
    using value_guard [of example_contract example_externals]
    by (simp add: example_externalFunctions example_fallbackFunction example_names p All_less_Suc)
qed

text \<open>
  Claim C4. The last case is the default. With a fallback function its body calls the
  fallback's unique name, after the value guard if the fallback is not payable; without
  one its body is the single call \<open>revert(0, 0)\<close> with two \<open>u256\<close> zero literals.
\<close>

theorem default_case:
  "case_value (last (cases (dispatcherSwitch ext c))) = None \<and>
   (\<forall>f. fallbackFunction c = Some f \<longrightarrow>
      case_body (last (cases (dispatcherSwitch ext c))) =
        AsmBlock defaultLocation
          ((if isPayable f then [] else [callTo ''ensureNoValueTransfer'']) @
           [callTo (uniqueFunctionName ext f)])) \<and>
   (fallbackFunction c = None \<longrightarrow>
      case_body (last (cases (dispatcherSwitch ext c))) =
        AsmBlock defaultLocation
          [StFunctionCall (FunctionCall defaultLocation ''revert''
             [StLiteral (Literal defaultLocation Number ''0'' ''u256''),
              StLiteral (Literal defaultLocation Number ''0'' ''u256'')])])"
proof -
  have a: "case_value (last (cases (dispatcherSwitch ext c))) = None"
    by (simp add: last_cases_dispatcherSwitch defaultCase_eq)
  have b: "\<forall>f. fallbackFunction c = Some f \<longrightarrow>
      case_body (last (cases (dispatcherSwitch ext c))) =
        AsmBlock defaultLocation
          ((if isPayable f then [] else [callTo ''ensureNoValueTransfer'']) @
           [callTo (uniqueFunctionName ext f)])"
  proof (intro allI impI)
    fix f assume f: "fallbackFunction c = Some f"
    then have "uniqueFunctionName ext f = ''fallback''"
      by (simp add: uniqueFunctionName_def fallbackFunction_name)
    then show "case_body (last (cases (dispatcherSwitch ext c))) =
        AsmBlock defaultLocation
          ((if isPayable f then [] else [callTo ''ensureNoValueTransfer'']) @
           [callTo (uniqueFunctionName ext f)])"
      using f by (simp add: last_cases_dispatcherSwitch defaultCase_eq)
  qed
  have c: "fallbackFunction c = None \<longrightarrow>
      case_body (last (cases (dispatcherSwitch ext c))) =
        AsmBlock defaultLocation
          [StFunctionCall (FunctionCall defaultLocation ''revert''
             [StLiteral (Literal defaultLocation Number ''0'' ''u256''),
              StLiteral (Literal defaultLocation Number ''0'' ''u256'')])]"
    by (simp add: last_cases_dispatcherSwitch defaultCase_eq)
  show ?thesis using a b c by blast
qed

theorem default_case_witness:
  "fallbackFunction example_contract = Some example_fallback \<and>
   case_body (last (cases (dispatcherSwitch example_externals example_contract))) =
     AsmBlock defaultLocation [callTo ''ensureNoValueTransfer'', callTo ''fallback''] \<and>
   fallbackFunction example_unsupported = None \<and>
   case_value (last (cases (dispatcherSwitch example_externals example_unsupported))) = None \<and>
   case_body (last (cases (dispatcherSwitch example_externals example_unsupported))) =
     AsmBlock defaultLocation
       [StFunctionCall (FunctionCall defaultLocation ''revert''
          [StLiteral (Literal defaultLocation Number ''0'' ''u256''),
           StLiteral (Literal defaultLocation Number ''0'' ''u256'')])]"
proof -
  have p: "\<not> isPayable example_fallback"
    by (simp add: example_fallback_def)
  show ?thesis
    using default_case [of example_externals example_contract]
      default_case [of example_externals example_unsupported]
    by (simp add: example_fallbackFunction example_no_fallback example_names p)
qed

text \<open>
  Claim C5. The name that the source computes is the one the spec describes; a contract
  that generates successfully carries it on the committed definition of every function,
  and the dispatcher calls the function under the same name.
\<close>

theorem internal_names:
  assumes "visit_ContractDefinition ext c st = Inr st'"
  shows "(\<forall>f. uniqueFunctionName ext f = spec_internalName ext f) \<and>
         (\<forall>i < length (definedFunctions c).
            statements (the (contractBlock st' (fullyQualifiedName c))) ! i =
              StFunctionDefinition
                (AsmFunctionDefinition (location (definedFunctions c ! i))
                   (spec_internalName ext (definedFunctions c ! i))
                   (AsmBlock defaultLocation (emitted (body (definedFunctions c ! i)))))) \<and>
         (\<forall>i < length (externalFunctions c).
            last (statements (case_body (cases (dispatcherSwitch ext c) ! i))) =
              callTo (spec_internalName ext (externalFunctions c ! i))) \<and>
         (\<forall>f. fallbackFunction c = Some f \<longrightarrow>
            last (statements (case_body (last (cases (dispatcherSwitch ext c))))) =
              callTo (spec_internalName ext f))"
proof -
  have names: "\<forall>f. uniqueFunctionName ext f = spec_internalName ext f"
    by (simp add: uniqueFunctionName_def spec_internalName_def)
  from visit_ContractDefinition_block [OF assms] obtain pb where
    blk: "contractBlock st' (fullyQualifiedName c) =
             Some (AsmBlock (contract_location c)
                    (map (\<lambda>f. StFunctionDefinition (functionIR ext f)) (definedFunctions c) @
                     statements pb @ [StSwitch (dispatcherSwitch ext c)]))"
    by blast
  have committed: "\<forall>i < length (definedFunctions c).
            statements (the (contractBlock st' (fullyQualifiedName c))) ! i =
              StFunctionDefinition
                (AsmFunctionDefinition (location (definedFunctions c ! i))
                   (spec_internalName ext (definedFunctions c ! i))
                   (AsmBlock defaultLocation (emitted (body (definedFunctions c ! i)))))"
    using names by (simp add: blk nth_append functionIR_def)
  have called: "\<forall>i < length (externalFunctions c).
            last (statements (case_body (cases (dispatcherSwitch ext c) ! i))) =
              callTo (spec_internalName ext (externalFunctions c ! i))"
    using names by (simp add: nth_cases_dispatcherSwitch caseFor_def)
  have fb: "\<forall>f. fallbackFunction c = Some f \<longrightarrow>
            last (statements (case_body (last (cases (dispatcherSwitch ext c))))) =
              callTo (spec_internalName ext f)"
  proof (intro allI impI)
    fix f assume f: "fallbackFunction c = Some f"
    then have "spec_internalName ext f = ''fallback''"
      by (simp add: spec_internalName_def fallbackFunction_name)
    then show "last (statements (case_body (last (cases (dispatcherSwitch ext c))))) =
              callTo (spec_internalName ext f)"
      using f by (simp add: last_cases_dispatcherSwitch defaultCase_eq)
  qed
  show ?thesis using names committed called fb by blast
qed

theorem internal_names_witness:
  "visit_ContractDefinition example_externals example_contract initialState = Inr example_result \<and>
   uniqueFunctionName example_externals example_foo = example_foo_name \<and>
   statements (the (contractBlock example_result ''a.sol:C'')) ! 0 =
     StFunctionDefinition
       (AsmFunctionDefinition (location example_foo) example_foo_name
          (AsmBlock defaultLocation (emitted (body example_foo)))) \<and>
   statements (the (contractBlock example_result ''a.sol:C'')) ! 2 =
     StFunctionDefinition
       (AsmFunctionDefinition (location example_fallback) ''fallback''
          (AsmBlock defaultLocation (emitted (body example_fallback)))) \<and>
   last (statements (case_body (cases (dispatcherSwitch example_externals example_contract) ! 0))) =
     callTo example_foo_name \<and>
   fallbackFunction example_contract = Some example_fallback \<and>
   last (statements (case_body (last (cases (dispatcherSwitch example_externals example_contract))))) =
     callTo ''fallback''"
  using internal_names [OF example_run]
  by (simp add: example_run example_fullyQualifiedName example_definedFunctions
      example_externalFunctions example_fallbackFunction example_spec_names
      All_less_Suc eval_nat_numeral)

text \<open>
  Claim C6, as the spec states it, fails: the rejection of a function comes after the
  block of its contract was registered, and the block stays registered, with the functions
  committed before.
\<close>

theorem restriction_enforcement_counterexample:
  "parameters example_baz \<noteq> [] \<and>
   visit_ContractDefinition example_externals example_unsupported initialState =
     Inl (UnimplementedFeatureError ''Parameters not supported yet.'', example_rejected) \<and>
   contractBlock example_rejected (fullyQualifiedName example_unsupported) = Some example_partial"
  by (simp add: example_rejected_run)
    (simp add: example_baz_def example_unsupported_def example_rejected_def contractBlock_def)

text \<open>
  Claim C6, amended. A contract that violates a contract-level restriction is rejected with
  \<open>UnimplementedFeatureError\<close> and the message of the first restriction it violates, and
  the generator is left untouched. If the contract passes these checks and is not yet
  registered, the first function that violates a function-level restriction is rejected
  with the message of the first restriction it violates; the block of the contract is then
  registered and holds the definitions of the functions declared before that one.
\<close>

theorem restriction_enforcement:
  "((contractViolations c \<noteq> []) =
      (contractKind c \<noteq> Contract \<or> baseContracts c \<noteq> [] \<or> definedStructs c \<noteq> [] \<or>
       definedEnums c \<noteq> [] \<or> events c \<noteq> [] \<or> functionModifiers c \<noteq> [])) \<and>
   ((functionViolations f \<noteq> []) =
      (\<not> isImplemented f \<or> modifiers f \<noteq> [] \<or> parameters f \<noteq> [] \<or> returnParameters f \<noteq> [])) \<and>
   (contractViolations c \<noteq> [] \<longrightarrow>
      visit_ContractDefinition ext c st =
        Inl (UnimplementedFeatureError (hd (contractViolations c)), st)) \<and>
   (contractViolations c = [] \<and> m_contracts st (fullyQualifiedName c) = None \<and>
    definedFunctions c = pre @ f # post \<and> (\<forall>g \<in> set pre. functionViolations g = []) \<and>
    functionViolations f \<noteq> [] \<longrightarrow>
      isl (visit_ContractDefinition ext c st) \<and>
      fst (projl (visit_ContractDefinition ext c st)) =
        UnimplementedFeatureError (hd (functionViolations f)) \<and>
      contractBlock (snd (projl (visit_ContractDefinition ext c st))) (fullyQualifiedName c) =
        Some (AsmBlock (contract_location c)
               (map (\<lambda>g. StFunctionDefinition (functionIR ext g)) pre)))"
proof -
  have a: "(contractViolations c \<noteq> []) =
      (contractKind c \<noteq> Contract \<or> baseContracts c \<noteq> [] \<or> definedStructs c \<noteq> [] \<or>
       definedEnums c \<noteq> [] \<or> events c \<noteq> [] \<or> functionModifiers c \<noteq> [])"
    by (simp add: contractViolations_Nil)
  have b: "(functionViolations f \<noteq> []) =
      (\<not> isImplemented f \<or> modifiers f \<noteq> [] \<or> parameters f \<noteq> [] \<or> returnParameters f \<noteq> [])"
    by (simp add: functionViolations_Nil)
  have c: "contractViolations c \<noteq> [] \<longrightarrow>
      visit_ContractDefinition ext c st =
        Inl (UnimplementedFeatureError (hd (contractViolations c)), st)"
    by (simp add: visit_ContractDefinition_unsupported)
  have d: "contractViolations c = [] \<and> m_contracts st (fullyQualifiedName c) = None \<and>
    definedFunctions c = pre @ f # post \<and> (\<forall>g \<in> set pre. functionViolations g = []) \<and>
    functionViolations f \<noteq> [] \<longrightarrow>
      isl (visit_ContractDefinition ext c st) \<and>
      fst (projl (visit_ContractDefinition ext c st)) =
        UnimplementedFeatureError (hd (functionViolations f)) \<and>
      contractBlock (snd (projl (visit_ContractDefinition ext c st))) (fullyQualifiedName c) =
        Some (AsmBlock (contract_location c)
               (map (\<lambda>g. StFunctionDefinition (functionIR ext g)) pre))"
  proof (intro impI, elim conjE)
    assume h: "contractViolations c = []" "m_contracts st (fullyQualifiedName c) = None"
      "definedFunctions c = pre @ f # post" "\<forall>g \<in> set pre. functionViolations g = []"
      "functionViolations f \<noteq> []"
    show "isl (visit_ContractDefinition ext c st) \<and>
      fst (projl (visit_ContractDefinition ext c st)) =
        UnimplementedFeatureError (hd (functionViolations f)) \<and>
      contractBlock (snd (projl (visit_ContractDefinition ext c st))) (fullyQualifiedName c) =
        Some (AsmBlock (contract_location c)
               (map (\<lambda>g. StFunctionDefinition (functionIR ext g)) pre))"
      by (simp add: visit_ContractDefinition_function_fail [OF h] contractBlock_registered)
  qed
  show ?thesis using a b c d by blast
qed

theorem restriction_enforcement_witness:
  "contractViolations example_library \<noteq> [] \<and>
   visit_ContractDefinition example_externals example_library initialState =
     Inl (UnimplementedFeatureError
            ''Non-contracts (libraries, interfaces) are not supported yet.'', initialState) \<and>
   contractViolations example_unsupported = [] \<and>
   m_contracts initialState (fullyQualifiedName example_unsupported) = None \<and>
   definedFunctions example_unsupported = [example_foo] @ example_baz # [] \<and>
   functionViolations example_foo = [] \<and>
   functionViolations example_baz \<noteq> [] \<and>
   isl (visit_ContractDefinition example_externals example_unsupported initialState) \<and>
   fst (projl (visit_ContractDefinition example_externals example_unsupported initialState)) =
     UnimplementedFeatureError ''Parameters not supported yet.'' \<and>
   contractBlock
     (snd (projl (visit_ContractDefinition example_externals example_unsupported initialState)))
     (fullyQualifiedName example_unsupported) =
     Some (AsmBlock (contract_location example_unsupported)
            [StFunctionDefinition (functionIR example_externals example_foo)])"
proof -
  have r: "m_contracts initialState (fullyQualifiedName example_unsupported) = None"
    by (simp add: initialState_def)
  have fs: "definedFunctions example_unsupported = [example_foo] @ example_baz # []"
    by (simp add: example_unsupported_def)
  show ?thesis
    using restriction_enforcement [of example_library example_baz example_externals initialState "[]" "[]"]
      restriction_enforcement [of example_unsupported example_baz example_externals initialState
        "[example_foo]" "[]"]
    by (simp add: example_violations r fs)
qed

text \<open>
  Claim C7, as the spec states it, fails: the restriction checks of lines 38 to 46 run
  before the assertion of line 48. A library that carries a name whose block is already
  registered is rejected with \<open>UnimplementedFeatureError\<close>, not with
  \<open>InternalCompilerError\<close>.
\<close>

theorem duplicate_registration_counterexample:
  "fullyQualifiedName example_library = ''a.sol:C'' \<and>
   m_contracts example_result ''a.sol:C'' = Some 0 \<and>
   contractBlock example_result ''a.sol:C'' = Some example_block \<and>
   visit_ContractDefinition example_externals example_library example_result =
     Inl (UnimplementedFeatureError
            ''Non-contracts (libraries, interfaces) are not supported yet.'', example_result)"
  by (simp add: example_contractBlock)
    (simp add: example_library_def example_contract_def example_result_def
      visit_ContractDefinition_def solUnimplementedAssert_def)

text \<open>
  Claim C7, amended. Visiting a contract whose fully-qualified name already has a
  registered block always fails before anything is emitted and leaves the generator as it
  was, so the registered block is not replaced and a name is registered at most once. The
  failure is \<open>InternalCompilerError\<close> when the contract passes the restriction checks;
  when it violates one, the failure is the \<open>UnimplementedFeatureError\<close> of the first
  violated restriction, because these checks run first.
\<close>

theorem duplicate_registration:
  assumes "m_contracts st (fullyQualifiedName c) = Some a"
  shows "isl (visit_ContractDefinition ext c st) \<and>
         snd (projl (visit_ContractDefinition ext c st)) = st \<and>
         (contractViolations c = [] \<longrightarrow>
            visit_ContractDefinition ext c st = Inl (InternalCompilerError [], st)) \<and>
         (contractViolations c \<noteq> [] \<longrightarrow>
            visit_ContractDefinition ext c st =
              Inl (UnimplementedFeatureError (hd (contractViolations c)), st))"
proof (cases "contractViolations c = []")
  case True
  then show ?thesis
    using assms by (simp add: visit_ContractDefinition_duplicate)
next
  case False
  then show ?thesis
    by (simp add: visit_ContractDefinition_unsupported)
qed

theorem duplicate_registration_witness:
  "m_contracts example_result (fullyQualifiedName example_contract) = Some 0 \<and>
   contractViolations example_contract = [] \<and>
   visit_ContractDefinition example_externals example_contract initialState = Inr example_result \<and>
   visit_ContractDefinition example_externals example_contract example_result =
     Inl (InternalCompilerError [], example_result) \<and>
   m_contracts example_result (fullyQualifiedName example_library) = Some 0 \<and>
   contractViolations example_library \<noteq> [] \<and>
   visit_ContractDefinition example_externals example_library example_result =
     Inl (UnimplementedFeatureError
            ''Non-contracts (libraries, interfaces) are not supported yet.'', example_result)"
proof -
  have h: "m_contracts example_result (fullyQualifiedName example_contract) = Some 0"
    by (simp add: example_result_def example_contract_def)
  have k: "m_contracts example_result (fullyQualifiedName example_library) = Some 0"
    by (simp add: example_result_def example_contract_def example_library_def)
  show ?thesis
    using duplicate_registration [OF h, of example_externals]
      duplicate_registration [OF k, of example_externals] h k
    by (simp add: example_violations example_run)
qed

text \<open>
  Claim C8, as the spec states it, fails: there is no check on entry. Inside the visit of
  \<open>foo\<close> the context is not the idle one, and entering \<open>bar\<close> there succeeds.
\<close>

theorem current_function_context_counterexample:
  "visit_FunctionDefinition example_externals example_foo initialState = Inr example_active \<and>
   m_currentFunction example_active \<noteq> idleContext \<and>
   visit_FunctionDefinition example_externals example_bar example_active =
     Inr (example_active\<lparr>m_currentFunction := functionIR example_externals example_bar\<rparr>)"
  by (simp add: example_active_run)
    (simp add: example_defs example_active_def run_defs functionIR_def)

text \<open>
  Claim C8, amended. Entering a function that passes the restriction checks always
  succeeds: the context is replaced by a fresh one with the function's unique name, its
  location and the statements of its own body, whatever the context held before, and
  nothing else changes. Leaving a function appends the context to the block of the
  contract as its last statement.
\<close>

theorem current_function_context:
  "(functionViolations f = [] \<longrightarrow>
      visit_FunctionDefinition ext f st =
        Inr (st\<lparr>m_currentFunction :=
               AsmFunctionDefinition (location f) (uniqueFunctionName ext f)
                 (AsmBlock defaultLocation (emitted (body f)))\<rparr>)) \<and>
   (m_body st = Some a \<and> a < length (heap st) \<longrightarrow>
      \<not> isl (endVisit_FunctionDefinition st) \<and>
      heap (projr (endVisit_FunctionDefinition st)) =
        (heap st)[a := AsmBlock (block_location (heap st ! a))
                         (statements (heap st ! a) @ [StFunctionDefinition (m_currentFunction st)])])"
proof -
  have enter: "functionViolations f = [] \<longrightarrow>
      visit_FunctionDefinition ext f st =
        Inr (st\<lparr>m_currentFunction :=
               AsmFunctionDefinition (location f) (uniqueFunctionName ext f)
                 (AsmBlock defaultLocation (emitted (body f)))\<rparr>)"
    by (simp add: visit_FunctionDefinition_ok functionIR_def)
  have leave: "m_body st = Some a \<and> a < length (heap st) \<longrightarrow>
      \<not> isl (endVisit_FunctionDefinition st) \<and>
      heap (projr (endVisit_FunctionDefinition st)) =
        (heap st)[a := AsmBlock (block_location (heap st ! a))
                         (statements (heap st ! a) @ [StFunctionDefinition (m_currentFunction st)])]"
    by (simp add: endVisit_FunctionDefinition_def body_emplace_back_def)
  show ?thesis using enter leave by blast
qed

theorem current_function_context_witness:
  "functionViolations example_bar = [] \<and>
   visit_FunctionDefinition example_externals example_bar example_active =
     Inr (example_active\<lparr>m_currentFunction :=
            AsmFunctionDefinition (location example_bar) example_bar_name
              (AsmBlock defaultLocation (emitted (body example_bar)))\<rparr>) \<and>
   m_body example_rejected = Some 0 \<and> (0::nat) < length (heap example_rejected) \<and>
   \<not> isl (endVisit_FunctionDefinition example_rejected) \<and>
   heap (projr (endVisit_FunctionDefinition example_rejected)) =
     (heap example_rejected)
       [0 := AsmBlock (block_location (heap example_rejected ! 0))
               (statements (heap example_rejected ! 0) @
                [StFunctionDefinition (m_currentFunction example_rejected)])]"
proof -
  have h: "m_body example_rejected = Some 0" "(0::nat) < length (heap example_rejected)"
    by (simp_all add: example_rejected_def)
  show ?thesis
    using current_function_context [of example_bar example_externals example_active 0]
      current_function_context [of example_bar example_externals example_rejected 0] h
    by (simp add: example_violations example_names)
qed

text \<open>
  Claim C9. What generation yields for a contract, the error or the registered block, is
  a function of the contract alone: two runs from any two generators that have not
  registered the contract agree, whatever else the generators hold.
\<close>

theorem generation_deterministic:
  assumes "m_contracts st1 (fullyQualifiedName c) = None"
    and "m_contracts st2 (fullyQualifiedName c) = None"
  shows "outcome (fullyQualifiedName c) (visit_ContractDefinition ext c st1) =
         outcome (fullyQualifiedName c) (visit_ContractDefinition ext c st2)"
proof (cases "contractViolations c = []")
  case False
  then show ?thesis
    by (simp add: visit_ContractDefinition_unsupported outcome_def)
next
  case v: True
  show ?thesis
  proof (cases "\<forall>f \<in> set (definedFunctions c). functionViolations f = []")
    case False
    then have "\<exists>x \<in> set (definedFunctions c). functionViolations x \<noteq> []" by simp
    then obtain pre g post where
      s: "definedFunctions c = pre @ g # post" and g: "functionViolations g \<noteq> []" and
      "\<forall>h \<in> set pre. \<not> functionViolations h \<noteq> []"
      using split_list_first_prop [of "definedFunctions c" "\<lambda>x. functionViolations x \<noteq> []"] by blast
    then have pre: "\<forall>h \<in> set pre. functionViolations h = []" by simp
    show ?thesis
      by (simp add: visit_ContractDefinition_function_fail [OF v assms(1) s pre g]
          visit_ContractDefinition_function_fail [OF v assms(2) s pre g] outcome_def)
  next
    case f: True
    show ?thesis
    proof (cases "fst (parse ext dispatcherBoilerplate) = None \<or>
                  snd (parse ext dispatcherBoilerplate) \<noteq> []")
      case True
      from visit_ContractDefinition_parse_fail [OF v assms(1) f True]
      obtain s1 where r1: "visit_ContractDefinition ext c st1 = Inl (InternalCompilerError [], s1)"
        by blast
      from visit_ContractDefinition_parse_fail [OF v assms(2) f True]
      obtain s2 where r2: "visit_ContractDefinition ext c st2 = Inl (InternalCompilerError [], s2)"
        by blast
      show ?thesis by (simp add: r1 r2 outcome_def)
    next
      case False
      then obtain pb where p: "parse ext dispatcherBoilerplate = (Some pb, [])"
        by (cases "parse ext dispatcherBoilerplate") auto
      show ?thesis
        by (simp add: visit_ContractDefinition_ok [OF v assms(1) f p]
            visit_ContractDefinition_ok [OF v assms(2) f p] outcome_def contractBlock_registered)
    qed
  qed
qed

theorem generation_deterministic_witness:
  "m_contracts initialState (fullyQualifiedName example_contract) = None \<and>
   m_contracts example_rejected (fullyQualifiedName example_contract) = None \<and>
   initialState \<noteq> example_rejected \<and>
   outcome (fullyQualifiedName example_contract)
     (visit_ContractDefinition example_externals example_contract example_rejected) =
   Inr (Some example_block)"
proof -
  have h1: "m_contracts initialState (fullyQualifiedName example_contract) = None"
    by (simp add: initialState_def)
  have h2: "m_contracts example_rejected (fullyQualifiedName example_contract) = None"
    by (simp add: example_rejected_def example_contract_def)
  have d: "initialState \<noteq> example_rejected"
    by (simp add: initialState_def example_rejected_def)
  have o: "outcome (fullyQualifiedName example_contract)
     (visit_ContractDefinition example_externals example_contract initialState) =
     Inr (Some example_block)"
    by (simp add: example_run outcome_def example_fullyQualifiedName example_contractBlock)
  show ?thesis
    using generation_deterministic [OF h1 h2, of example_externals] h1 h2 d o by simp
qed

text \<open>
  Claim C10. The block of a contract that generates successfully holds, in this order:
  the committed definition of every function in declaration order, the statements parsed
  from the boilerplate snippet in the order of the snippet, and the dispatcher switch as
  the last statement.
\<close>

theorem block_statement_order:
  assumes "visit_ContractDefinition ext c st = Inr st'"
  shows "fst (parse ext dispatcherBoilerplate) \<noteq> None \<and>
         snd (parse ext dispatcherBoilerplate) = [] \<and>
         contractBlock st' (fullyQualifiedName c) =
           Some (AsmBlock (contract_location c)
                  (map (\<lambda>f. StFunctionDefinition (functionIR ext f)) (definedFunctions c) @
                   statements (the (fst (parse ext dispatcherBoilerplate))) @
                   [StSwitch (dispatcherSwitch ext c)]))"
proof -
  from visit_ContractDefinition_block [OF assms] obtain pb where
    p: "parse ext dispatcherBoilerplate = (Some pb, [])" and
    blk: "contractBlock st' (fullyQualifiedName c) =
             Some (AsmBlock (contract_location c)
                    (map (\<lambda>f. StFunctionDefinition (functionIR ext f)) (definedFunctions c) @
                     statements pb @ [StSwitch (dispatcherSwitch ext c)]))"
    by blast
  show ?thesis by (simp add: p blk)
qed

theorem block_statement_order_witness:
  "visit_ContractDefinition example_externals example_contract initialState = Inr example_result \<and>
   contractBlock example_result ''a.sol:C'' =
     Some (AsmBlock (contract_location example_contract)
            ([StFunctionDefinition (functionIR example_externals example_foo),
              StFunctionDefinition (functionIR example_externals example_bar),
              StFunctionDefinition (functionIR example_externals example_fallback)] @
             statements example_boilerplate @
             [StSwitch example_switch]))"
  using block_statement_order [OF example_run]
  by (simp add: example_run example_fullyQualifiedName example_definedFunctions
      example_parse_boilerplate example_dispatcherSwitch)

end
